theory Spec2Isabelle
  imports Complex_Main "HOL-Library.Word"
begin

section \<open>JavaScript values used by the extension and the proxy\<close>

subsection \<open>Strings\<close>

text \<open>
  A JavaScript string is a sequence of UTF-16 code units and \<^verbatim>\<open>.length\<close> counts code
  units, so a string is a list of 16-bit words. \<open>js\<close> embeds an ASCII literal.
\<close>

type_synonym jschar = "16 word"
type_synonym jsstring = "jschar list"

definition js :: "string \<Rightarrow> jsstring" where
  "js s = map of_char s"

abbreviation ch :: "char \<Rightarrow> jschar" where
  "ch \<equiv> of_char"

text \<open>
  The code units that \<^verbatim>\<open>String.prototype.trim\<close> strips and that the regular expression
  class \<^verbatim>\<open>\s\<close> matches (ECMAScript WhiteSpace and LineTerminator): TAB, LF, VT, FF, CR,
  SP, NBSP, U+1680, U+2000..U+200A, U+2028, U+2029, U+202F, U+205F, U+3000, U+FEFF.
\<close>

definition is_ws :: "jschar \<Rightarrow> bool" where
  "is_ws c \<longleftrightarrow>
     (0x09 \<le> c \<and> c \<le> 0x0D) \<or> c = 0x20 \<or> c = 0xA0 \<or> c = 0x1680 \<or>
     (0x2000 \<le> c \<and> c \<le> 0x200A) \<or> c = 0x2028 \<or> c = 0x2029 \<or> c = 0x202F \<or>
     c = 0x205F \<or> c = 0x3000 \<or> c = 0xFEFF"

definition trim :: "jsstring \<Rightarrow> jsstring" where
  "trim s = rev (dropWhile is_ws (rev (dropWhile is_ws s)))"

subsection \<open>JSON values\<close>

text \<open>
  Values that cross the message channel, the storage area and the HTTP bodies are JSON
  values. An object keeps its members in insertion order; a number is kept as the exact
  value of its decimal literal. The programs only ever test a number for being zero, and
  that test sees the number rounded to a double: a magnitude of at most \<open>1 / 2 ^ 1075\<close>, half
  the least positive double, rounds to zero. The rounding of other numbers and the order
  in which an object enumerates members with integer names only show when a value is
  written out again, and are left out. \<^verbatim>\<open>undefined\<close> is \<open>None\<close> of a \<open>json option\<close>.
\<close>

datatype json =
    JNull
  | JBool bool
  | JNum rat
  | JStr jsstring
  | JArr "json list"
  | JObj "(jsstring \<times> json) list"

definition rounds_to_zero :: "rat \<Rightarrow> bool" where
  "rounds_to_zero n \<longleftrightarrow> \<bar>n\<bar> \<le> 1 / 2 ^ 1075"

text \<open>ToBoolean: \<^verbatim>\<open>if (v)\<close>, \<^verbatim>\<open>!v\<close>, \<^verbatim>\<open>v || d\<close>.\<close>

fun truthy :: "json \<Rightarrow> bool" where
  "truthy JNull = False"
| "truthy (JBool b) = b"
| "truthy (JNum n) = (\<not> rounds_to_zero n)"
| "truthy (JStr s) = (s \<noteq> [])"
| "truthy (JArr _) = True"
| "truthy (JObj _) = True"

definition truthy_opt :: "json option \<Rightarrow> bool" where
  "truthy_opt v = (case v of None \<Rightarrow> False | Some x \<Rightarrow> truthy x)"

text \<open>
  Property read \<^verbatim>\<open>v.k\<close> for a member name \<open>k\<close> that is not an array index or
  \<^verbatim>\<open>length\<close>: an object gives its member (the last one of that name wins), every other
  value gives \<^verbatim>\<open>undefined\<close>.
\<close>

fun field :: "json \<Rightarrow> jsstring \<Rightarrow> json option" where
  "field (JObj kvs) k = map_of (rev kvs) k"
| "field _ k = None"

subsection \<open>\<^verbatim>\<open>JSON.parse\<close>\<close>

text \<open>
  \<^verbatim>\<open>JSON.parse\<close> is a built-in of the platform. It is modelled by a lexer and a parser for
  the JSON grammar of ECMA-262: \<open>None\<close> stands for the \<^verbatim>\<open>SyntaxError\<close> it throws.

  Assigning a member: an existing member keeps its place and gets the new value, a new
  member is appended (\<^verbatim>\<open>o[k] = v\<close>, and a repeated member name in a JSON text).
\<close>

definition obj_set :: "(jsstring \<times> json) list \<Rightarrow> jsstring \<Rightarrow> json \<Rightarrow> (jsstring \<times> json) list" where
  "obj_set ms k v =
     (if k \<in> fst ` set ms
      then map (\<lambda>(k', v'). if k' = k then (k', v) else (k', v')) ms
      else ms @ [(k, v)])"

text \<open>JSON white space is TAB, LF, CR and SP only.\<close>

definition json_ws :: "jschar \<Rightarrow> bool" where
  "json_ws c \<longleftrightarrow> c = 0x09 \<or> c = 0x0A \<or> c = 0x0D \<or> c = 0x20"

definition is_digit :: "jschar \<Rightarrow> bool" where
  "is_digit c \<longleftrightarrow> ch CHR ''0'' \<le> c \<and> c \<le> ch CHR ''9''"

text \<open>
  A string literal: the text after the opening quote, up to the closing quote, with the
  escapes decoded. Control characters below U+0020 must be escaped.
\<close>

definition hex_val :: "jschar \<Rightarrow> nat option" where
  "hex_val c =
     (if ch CHR ''0'' \<le> c \<and> c \<le> ch CHR ''9'' then Some (unat c - 48)
      else if ch CHR ''a'' \<le> c \<and> c \<le> ch CHR ''f'' then Some (unat c - 87)
      else if ch CHR ''A'' \<le> c \<and> c \<le> ch CHR ''F'' then Some (unat c - 55)
      else None)"

definition unescape :: "jschar \<Rightarrow> jschar option" where
  "unescape e =
     (if e = ch CHR 0x22 then Some 0x22
      else if e = ch CHR 0x5C then Some 0x5C
      else if e = ch CHR ''/'' then Some (ch CHR ''/'')
      else if e = ch CHR ''b'' then Some 0x08
      else if e = ch CHR ''f'' then Some 0x0C
      else if e = ch CHR ''n'' then Some 0x0A
      else if e = ch CHR ''r'' then Some 0x0D
      else if e = ch CHR ''t'' then Some 0x09
      else None)"

definition hex4 :: "jschar \<Rightarrow> jschar \<Rightarrow> jschar \<Rightarrow> jschar \<Rightarrow> jschar option" where
  "hex4 h1 h2 h3 h4 =
     (case hex_val h1 of None \<Rightarrow> None | Some a \<Rightarrow>
      case hex_val h2 of None \<Rightarrow> None | Some b \<Rightarrow>
      case hex_val h3 of None \<Rightarrow> None | Some c \<Rightarrow>
      case hex_val h4 of None \<Rightarrow> None | Some d \<Rightarrow>
        Some (of_nat (((a * 16 + b) * 16 + c) * 16 + d)))"

fun lex_string :: "jsstring \<Rightarrow> jsstring \<Rightarrow> (jsstring \<times> jsstring) option" where
  "lex_string acc [] = None"
| "lex_string acc (c # cs) =
     (if c = 0x22 then Some (rev acc, cs)
      else if c = 0x5C then
        (case cs of
           [] \<Rightarrow> None
         | e # cs' \<Rightarrow>
             if e = ch CHR ''u'' then
               (case cs' of
                  h1 # h2 # h3 # h4 # rest \<Rightarrow>
                    (case hex4 h1 h2 h3 h4 of
                       None \<Rightarrow> None
                     | Some u \<Rightarrow> lex_string (u # acc) rest)
                | _ \<Rightarrow> None)
             else
               (case unescape e of
                  None \<Rightarrow> None
                | Some x \<Rightarrow> lex_string (x # acc) cs'))
      else if c < 0x20 then None
      else lex_string (c # acc) cs)"


text \<open>
  A number literal: an optional minus sign, an integer part without a leading zero, an
  optional fraction and an optional exponent.
\<close>

definition digits_val :: "jsstring \<Rightarrow> nat" where
  "digits_val ds = foldl (\<lambda>n d. 10 * n + (unat d - 48)) 0 ds"

definition lex_int :: "jsstring \<Rightarrow> (jsstring \<times> jsstring) option" where
  "lex_int s =
     (let ip = takeWhile is_digit s
      in if ip = [] \<or> (length ip > 1 \<and> take 1 ip = js ''0'') then None
         else Some (ip, dropWhile is_digit s))"

definition lex_frac :: "jsstring \<Rightarrow> (jsstring \<times> jsstring) option" where
  "lex_frac s =
     (case s of
        [] \<Rightarrow> Some ([], [])
      | c # cs \<Rightarrow>
          if c = ch CHR ''.'' then
            (if takeWhile is_digit cs = [] then None
             else Some (takeWhile is_digit cs, dropWhile is_digit cs))
          else Some ([], s))"

definition lex_exp :: "jsstring \<Rightarrow> (int \<times> jsstring) option" where
  "lex_exp s =
     (case s of
        [] \<Rightarrow> Some (0, [])
      | c # cs \<Rightarrow>
          if c = ch CHR ''e'' \<or> c = ch CHR ''E'' then
            (let neg = (take 1 cs = js ''-'');
                 ds = (if take 1 cs = js ''-'' \<or> take 1 cs = js ''+'' then drop 1 cs else cs)
             in if takeWhile is_digit ds = [] then None
                else Some ((if neg then - 1 else 1) * int (digits_val (takeWhile is_digit ds)),
                           dropWhile is_digit ds))
          else Some (0, s))"

definition lex_number :: "jsstring \<Rightarrow> (rat \<times> jsstring) option" where
  "lex_number s =
     (let neg = (take 1 s = js ''-'');
          s1 = (if neg then drop 1 s else s)
      in case lex_int s1 of
           None \<Rightarrow> None
         | Some (ip, s2) \<Rightarrow>
             (case lex_frac s2 of
                None \<Rightarrow> None
              | Some (fp, s3) \<Rightarrow>
                  (case lex_exp s3 of
                     None \<Rightarrow> None
                   | Some (e, s4) \<Rightarrow>
                       (let mant = rat_of_nat (digits_val (ip @ fp)) / 10 ^ length fp;
                            scaled = (if e < 0 then mant / 10 ^ nat (- e) else mant * 10 ^ nat e)
                        in Some (if neg then - scaled else scaled, s4)))))"


text \<open>Tokens; a literal token carries its value.\<close>

datatype token = LBrace | RBrace | LBrack | RBrack | Colon | Comma | Lit json

lemma lex_string_shorter: "lex_string acc s = Some (r, rest) \<Longrightarrow> length rest < length s"
proof (induction acc s rule: lex_string.induct)
  case (1 acc)
  then show ?case by simp
next
  case (2 acc c cs)
  show ?case
  proof (cases "c = 0x22")
    case True
    with "2.prems" show ?thesis by simp
  next
    case nq: False
    show ?thesis
    proof (cases "c = 0x5C")
      case False
      with nq "2.prems" have "\<not> c < 0x20" and "lex_string (c # acc) cs = Some (r, rest)"
        by (simp_all split: if_splits)
      with "2.IH"(3) [OF nq False] show ?thesis by simp
    next
      case bs: True
      show ?thesis
      proof (cases cs)
        case Nil
        with nq bs "2.prems" show ?thesis by simp
      next
        case (Cons e cs')
        show ?thesis
        proof (cases "e = ch CHR ''u''")
          case False
          with nq bs Cons "2.prems" obtain x where x: "unescape e = Some x"
            and "lex_string (x # acc) cs' = Some (r, rest)"
            by (simp split: option.splits)
          with "2.IH"(2) [OF nq bs Cons False x] Cons show ?thesis by simp
        next
          case True
          with nq bs Cons "2.prems" obtain h1 h2 h3 h4 rest' u where
            cs': "cs' = h1 # h2 # h3 # h4 # rest'" and u: "hex4 h1 h2 h3 h4 = Some u"
            and "lex_string (u # acc) rest' = Some (r, rest)"
            by (simp split: list.splits option.splits)
          with "2.IH"(1) [OF nq bs Cons True] Cons show ?thesis by fastforce
        qed
      qed
    qed
  qed
qed

lemma lex_int_shorter: "lex_int s = Some (ip, r) \<Longrightarrow> length r < length s"
proof -
  assume a: "lex_int s = Some (ip, r)"
  then have ne: "takeWhile is_digit s \<noteq> []" and r: "r = dropWhile is_digit s"
    by (auto simp: lex_int_def Let_def split: if_splits)
  have "length (takeWhile is_digit s) + length r = length s"
    unfolding r by (metis length_append takeWhile_dropWhile_id)
  with ne show ?thesis by (cases "takeWhile is_digit s") auto
qed

lemma lex_frac_shorter: "lex_frac s = Some (fp, r) \<Longrightarrow> length r \<le> length s"
  by (auto simp: lex_frac_def le_SucI length_dropWhile_le split: list.splits if_splits)

lemma lex_exp_shorter: "lex_exp s = Some (e, r) \<Longrightarrow> length r \<le> length s"
proof -
  assume a: "lex_exp s = Some (e, r)"
  have dw: "length (dropWhile is_digit xs) \<le> length xs" for xs :: jsstring
    by (rule length_dropWhile_le)
  have dr: "length (dropWhile is_digit (drop 1 xs)) \<le> length xs" for xs :: jsstring
    using dw [of "drop 1 xs"] by simp
  from a show ?thesis
    using dw dr by (auto simp: lex_exp_def Let_def le_SucI split: list.splits if_splits)
qed

lemma lex_number_shorter:
  assumes "lex_number s = Some (n, rest)"
  shows "length rest < length s"
proof -
  define s1 where "s1 = (if take 1 s = js ''-'' then drop 1 s else s)"
  from assms obtain ip s2 fp s3 e where
    1: "lex_int s1 = Some (ip, s2)" and 2: "lex_frac s2 = Some (fp, s3)"
    and 3: "lex_exp s3 = Some (e, rest)"
    unfolding lex_number_def Let_def s1_def [symmetric]
    by (auto split: option.splits)
  have "length s1 \<le> length s" unfolding s1_def by simp
  with lex_int_shorter [OF 1] lex_frac_shorter [OF 2] lex_exp_shorter [OF 3]
  show ?thesis by simp
qed

function lex :: "jsstring \<Rightarrow> token list option" where
  "lex [] = Some []"
| "lex (c # cs) =
     (if json_ws c then lex cs
      else if c = ch CHR ''{'' then (case lex cs of None \<Rightarrow> None | Some ts \<Rightarrow> Some (LBrace # ts))
      else if c = ch CHR ''}'' then (case lex cs of None \<Rightarrow> None | Some ts \<Rightarrow> Some (RBrace # ts))
      else if c = ch CHR ''['' then (case lex cs of None \<Rightarrow> None | Some ts \<Rightarrow> Some (LBrack # ts))
      else if c = ch CHR '']'' then (case lex cs of None \<Rightarrow> None | Some ts \<Rightarrow> Some (RBrack # ts))
      else if c = ch CHR '':'' then (case lex cs of None \<Rightarrow> None | Some ts \<Rightarrow> Some (Colon # ts))
      else if c = ch CHR '','' then (case lex cs of None \<Rightarrow> None | Some ts \<Rightarrow> Some (Comma # ts))
      else if c = 0x22 then
        (case lex_string [] cs of
           None \<Rightarrow> None
         | Some (str, rest) \<Rightarrow>
             (case lex rest of None \<Rightarrow> None | Some ts \<Rightarrow> Some (Lit (JStr str) # ts)))
      else if c = ch CHR ''-'' \<or> is_digit c then
        (case lex_number (c # cs) of
           None \<Rightarrow> None
         | Some (n, rest) \<Rightarrow>
             (case lex rest of None \<Rightarrow> None | Some ts \<Rightarrow> Some (Lit (JNum n) # ts)))
      else if take 4 (c # cs) = js ''true'' then
        (case lex (drop 3 cs) of None \<Rightarrow> None | Some ts \<Rightarrow> Some (Lit (JBool True) # ts))
      else if take 5 (c # cs) = js ''false'' then
        (case lex (drop 4 cs) of None \<Rightarrow> None | Some ts \<Rightarrow> Some (Lit (JBool False) # ts))
      else if take 4 (c # cs) = js ''null'' then
        (case lex (drop 3 cs) of None \<Rightarrow> None | Some ts \<Rightarrow> Some (Lit JNull # ts))
      else None)"
  by pat_completeness auto
termination
proof (relation "measure length")
qed (auto dest!: lex_string_shorter lex_number_shorter)

text \<open>
  The parser keeps the open arrays and objects on a stack: \<open>FArr xs\<close> is an array with
  the elements \<open>xs\<close> read so far, \<open>FKey ms k\<close> an object with the members \<open>ms\<close> read
  so far that waits for the value of the member \<open>k\<close>. \<open>parse_value\<close> expects a value,
  \<open>after_value v\<close> has just read the value \<open>v\<close>, \<open>parse_member\<close> expects a member name
  and a colon. Only the whole input is a JSON text: anything after the value is an error.
\<close>

datatype frame =
    FArr "json list"
  | FKey "(jsstring \<times> json) list" jsstring

fun parse_value :: "frame list \<Rightarrow> token list \<Rightarrow> json option"
  and after_value :: "json \<Rightarrow> frame list \<Rightarrow> token list \<Rightarrow> json option"
  and parse_member :: "(jsstring \<times> json) list \<Rightarrow> frame list \<Rightarrow> token list \<Rightarrow> json option"
where
  "parse_value st (Lit v # ts) = after_value v st ts"
| "parse_value st (LBrack # RBrack # ts) = after_value (JArr []) st ts"
| "parse_value st (LBrack # ts) = parse_value (FArr [] # st) ts"
| "parse_value st (LBrace # RBrace # ts) = after_value (JObj []) st ts"
| "parse_value st (LBrace # ts) = parse_member [] st ts"
| "parse_value st _ = None"
| "after_value v [] ts = (if ts = [] then Some v else None)"
| "after_value v (FArr xs # st) (Comma # ts) = parse_value (FArr (xs @ [v]) # st) ts"
| "after_value v (FArr xs # st) (RBrack # ts) = after_value (JArr (xs @ [v])) st ts"
| "after_value v (FKey ms k # st) (Comma # ts) = parse_member (obj_set ms k v) st ts"
| "after_value v (FKey ms k # st) (RBrace # ts) = after_value (JObj (obj_set ms k v)) st ts"
| "after_value v _ _ = None"
| "parse_member ms st (Lit (JStr k) # Colon # ts) = parse_value (FKey ms k # st) ts"
| "parse_member ms st _ = None"

definition JSON_parse :: "jsstring \<Rightarrow> json option" where
  "JSON_parse s = (case lex s of None \<Rightarrow> None | Some ts \<Rightarrow> parse_value [] ts)"

section \<open>The background dispatcher\<close>

subsection \<open>Persistent storage and the translation cache\<close>

text \<open>
  \<^verbatim>\<open>chrome.storage.local\<close> holds the proxy settings and, under the key
  \<^verbatim>\<open>translationCacheV1\<close>, the cache map from cache key to \<^verbatim>\<open>{ translation, ts }\<close>. An absent
  cache map reads as the empty map (\<^verbatim>\<open>res?.[CACHE_KEY] || {}\<close>). Cache keys are built by the
  listener and start with \<^verbatim>\<open>t:\<close>, so they never name a member inherited from
  \<^verbatim>\<open>Object.prototype\<close>; the map is a finite map on strings.
\<close>

record cache_entry =
  translation :: json
  ts :: int

record storage =
  proxyUrl :: "jsstring option"
  proxyToken :: "jsstring option"
  translationCacheV1 :: "jsstring \<rightharpoonup> cache_entry"

definition CACHE_TTL_MS :: int where
  "CACHE_TTL_MS = 24 * 60 * 60 * 1000"

text \<open>
  \<^verbatim>\<open>getCachedTranslation(key)\<close>, with the value of \<^verbatim>\<open>Date.now()\<close> as a parameter. The result
  is what the promise resolves to (\<open>None\<close> for \<^verbatim>\<open>null\<close>) and the storage afterwards.
\<close>

definition getCachedTranslation :: "int \<Rightarrow> jsstring \<Rightarrow> storage \<Rightarrow> json option \<times> storage" where
  "getCachedTranslation now key st =
     (let m = translationCacheV1 st in
      case m key of
        None \<Rightarrow> (None, st)
      | Some entry \<Rightarrow>
          if now - ts entry > CACHE_TTL_MS
          then (None, st\<lparr>translationCacheV1 := m(key := None)\<rparr>)
          else (Some (translation entry), st))"

text \<open>\<^verbatim>\<open>setCachedTranslation(key, translation)\<close>, again with \<^verbatim>\<open>Date.now()\<close> as a parameter.\<close>

definition setCachedTranslation :: "int \<Rightarrow> jsstring \<Rightarrow> json \<Rightarrow> storage \<Rightarrow> storage" where
  "setCachedTranslation now key tr st =
     st\<lparr>translationCacheV1 := (translationCacheV1 st)(key \<mapsto> \<lparr>translation = tr, ts = now\<rparr>)\<rparr>"

subsection \<open>Messages, responses and the network\<close>

text \<open>
  A message from the content script: \<^verbatim>\<open>{ type, text, target, voice }\<close>, each member a
  string or missing. The listener itself may be handed no message at all.
\<close>

record message =
  msg_type :: "jsstring option"
  msg_text :: "jsstring option"
  msg_target :: "jsstring option"
  msg_voice :: "jsstring option"

text \<open>
  What \<^verbatim>\<open>sendResponse\<close> is called with. \<open>Translation v c\<close> is
  \<^verbatim>\<open>{ translation: v }\<close>, with \<^verbatim>\<open>cached: true\<close> when \<open>c\<close> holds; \<open>Audio a m\<close> is
  \<^verbatim>\<open>{ audio: a, mime: m }\<close>; \<open>Failure f\<close> is an object with an \<^verbatim>\<open>error\<close> member:
  \<open>proxy_error_status s m\<close> is \<^verbatim>\<open>{ error: 'proxy_error', status: s, message: m }\<close>,
  \<open>proxy_error_detail d\<close> is \<^verbatim>\<open>{ error: 'proxy_error', detail: d }\<close>, the failures with a
  JSON argument carry it as \<^verbatim>\<open>raw\<close>, and \<open>request_failed m\<close> carries \<^verbatim>\<open>message: m\<close>.
\<close>

datatype failure =
    empty_text
  | text_too_long
  | proxy_error_status nat jsstring
  | invalid_response
  | proxy_error_detail json
  | proxy_no_translation json
  | no_analysis json
  | no_audio json
  | unknown_message_type
  | timeout
  | request_failed jsstring

datatype response =
    Translation json bool
  | Analysis json
  | Audio json json
  | Failure failure

text \<open>A thrown error, with its \<^verbatim>\<open>name\<close> and \<^verbatim>\<open>message\<close>.\<close>

record js_error =
  err_name :: jsstring
  err_message :: jsstring

text \<open>
  An HTTP response is there when the headers have arrived; the body is read afterwards.
  The read of the body never completes, or fails, or delivers the decoded text.
  \<^verbatim>\<open>resp.ok\<close> holds for a status from 200 to 299.
\<close>

datatype body_read =
    Stalls
  | Fails
  | Delivers jsstring

record http_response =
  status :: nat
  body :: body_read

definition ok :: "http_response \<Rightarrow> bool" where
  "ok r \<longleftrightarrow> 200 \<le> status r \<and> status r \<le> 299"

text \<open>
  \<^verbatim>\<open>await resp.text().catch(() => '')\<close>; \<open>None\<close> when the \<^verbatim>\<open>await\<close> never returns.
\<close>

definition resp_text :: "http_response \<Rightarrow> jsstring option" where
  "resp_text r = (case body r of Stalls \<Rightarrow> None | Fails \<Rightarrow> Some [] | Delivers b \<Rightarrow> Some b)"

text \<open>
  \<^verbatim>\<open>await resp.json().catch(() => null)\<close>; \<open>None\<close> when the \<^verbatim>\<open>await\<close> never returns.
\<close>

definition resp_json :: "http_response \<Rightarrow> json option" where
  "resp_json r =
     (case body r of
        Stalls \<Rightarrow> None
      | Fails \<Rightarrow> Some JNull
      | Delivers b \<Rightarrow> Some (case JSON_parse b of None \<Rightarrow> JNull | Some v \<Rightarrow> v))"

text \<open>
  A call of \<^verbatim>\<open>fetch\<close> (always a POST): the URL, the headers and the value whose
  \<^verbatim>\<open>JSON.stringify\<close> is the body.
\<close>

record fetch_request =
  url :: jsstring
  headers :: "(jsstring \<times> jsstring) list"
  payload :: json

text \<open>
  What the transport does with a call if nobody aborts it: it never settles, or the
  promise fulfils with a response, or it rejects with an error. The number is the time
  in milliseconds, counted from the moment the listener arms its timer, at which the
  promise would settle.
\<close>

datatype fetch_behaviour =
    Never
  | Fulfils nat http_response
  | Rejects nat js_error

text \<open>
  \<open>expired d b\<close>: the call with behaviour \<open>b\<close> has not settled when \<open>d\<close> milliseconds have
  passed since the timer was armed.
\<close>

fun settle_time :: "fetch_behaviour \<Rightarrow> nat option" where
  "settle_time Never = None"
| "settle_time (Fulfils t r) = Some t"
| "settle_time (Rejects t er) = Some t"

definition expired :: "nat \<Rightarrow> fetch_behaviour \<Rightarrow> bool" where
  "expired d b = (case settle_time b of None \<Rightarrow> True | Some t \<Rightarrow> d \<le> t)"



text \<open>
  The world around one run of the listener: the storage area, the two readings of
  \<^verbatim>\<open>Date.now()\<close> (in the cache read and in the cache write) and the transport. Storage
  callbacks are taken to complete, as the platform promises.
\<close>

record env =
  storage0 :: storage
  now_read :: int
  now_write :: int
  network :: "fetch_request \<Rightarrow> fetch_behaviour"

text \<open>
  What one run of the listener does: the calls of \<^verbatim>\<open>sendResponse\<close> in order, the calls of
  \<^verbatim>\<open>fetch\<close> in order, the storage area afterwards, and whether the listener returned
  \<^verbatim>\<open>true\<close> (it keeps the message channel open) rather than \<^verbatim>\<open>undefined\<close>. A run that
  waits for ever in an \<^verbatim>\<open>await\<close> has made the calls up to that point and no others.
\<close>

record outcome =
  responses :: "response list"
  fetches :: "fetch_request list"
  stored :: storage
  returned_true :: bool

subsection \<open>The listener\<close>

record proxy_config =
  cfg_url :: jsstring
  cfg_token :: "jsstring option"

definition getProxyConfig :: "storage \<Rightarrow> proxy_config" where
  "getProxyConfig st =
     \<lparr>cfg_url = (case proxyUrl st of
                   None \<Rightarrow> js ''https://smarttranslateplus-f5y4.vercel.app/api/translate''
                 | Some u \<Rightarrow>
                     if u \<noteq> [] then u
                     else js ''https://smarttranslateplus-f5y4.vercel.app/api/translate''),
      cfg_token = (case proxyToken st of
                     None \<Rightarrow> None
                   | Some t \<Rightarrow> if t \<noteq> [] then Some t else None)\<rparr>"

definition timeoutMs :: "jsstring \<Rightarrow> nat" where
  "timeoutMs ty = (if ty = js ''GET_TTS'' then 25000 else 15000)"

text \<open>
  \<^verbatim>\<open>await fetch(..., { signal: controller.signal })\<close> under the timer
  \<^verbatim>\<open>setTimeout(() => controller.abort(), timeoutMs)\<close>: a call that has not settled before
  the timer fires is aborted and rejects with an \<^verbatim>\<open>AbortError\<close>. The timer is armed before the
  cache is read, so the time of the cache read counts as well.
\<close>

definition AbortError :: js_error where
  "AbortError = \<lparr>err_name = js ''AbortError'', err_message = js ''signal is aborted without reason''\<rparr>"

definition await_fetch :: "nat \<Rightarrow> fetch_behaviour \<Rightarrow> js_error + http_response" where
  "await_fetch deadline b =
     (case b of
        Never \<Rightarrow> Inl AbortError
      | Fulfils t r \<Rightarrow> if t < deadline then Inr r else Inl AbortError
      | Rejects t e \<Rightarrow> if t < deadline then Inl e else Inl AbortError)"

text \<open>
  The \<^verbatim>\<open>catch (err)\<close> block. \<^verbatim>\<open>String(err)\<close> of an error with an empty message is its
  name.
\<close>

definition on_error :: "js_error \<Rightarrow> response" where
  "on_error err =
     (if err_name err = js ''AbortError'' then Failure timeout
      else Failure (request_failed
                      (if err_message err \<noteq> [] then err_message err else err_name err)))"

definition request_headers :: "proxy_config \<Rightarrow> (jsstring \<times> jsstring) list" where
  "request_headers cfg =
     (js ''Content-Type'', js ''application/json'') #
     (case cfg_token cfg of None \<Rightarrow> [] | Some t \<Rightarrow> [(js ''x-proxy-token'', t)])"

definition cacheKey :: "jsstring \<Rightarrow> jsstring \<Rightarrow> jsstring" where
  "cacheKey target text = js ''t:'' @ target @ js ''|'' @ text"

text \<open>\<^verbatim>\<open>message.target || 'it'\<close>\<close>

definition target_of :: "message \<Rightarrow> jsstring" where
  "target_of m = (case msg_target m of None \<Rightarrow> js ''it'' | Some t \<Rightarrow> if t \<noteq> [] then t else js ''it'')"

text \<open>
  The three calls of \<^verbatim>\<open>fetch\<close>: the URL and the headers come from the proxy settings
  in the storage area; the body is \<^verbatim>\<open>{ text, target }\<close>, \<^verbatim>\<open>{ text, action: 'analyze' }\<close> or
  \<^verbatim>\<open>{ text, tts: true, voice }\<close>, the voice being \<^verbatim>\<open>message.voice || null\<close>.
\<close>

definition voice_of :: "message \<Rightarrow> json" where
  "voice_of m = (case msg_voice m of None \<Rightarrow> JNull | Some v \<Rightarrow> if v \<noteq> [] then JStr v else JNull)"

definition translate_request :: "storage \<Rightarrow> message \<Rightarrow> jsstring \<Rightarrow> fetch_request" where
  "translate_request st m text =
     \<lparr>url = cfg_url (getProxyConfig st), headers = request_headers (getProxyConfig st),
      payload = JObj [(js ''text'', JStr text), (js ''target'', JStr (target_of m))]\<rparr>"

definition analyze_request :: "storage \<Rightarrow> jsstring \<Rightarrow> fetch_request" where
  "analyze_request st text =
     \<lparr>url = cfg_url (getProxyConfig st), headers = request_headers (getProxyConfig st),
      payload = JObj [(js ''text'', JStr text), (js ''action'', JStr (js ''analyze''))]\<rparr>"

definition tts_request :: "storage \<Rightarrow> message \<Rightarrow> jsstring \<Rightarrow> fetch_request" where
  "tts_request st m text =
     \<lparr>url = cfg_url (getProxyConfig st), headers = request_headers (getProxyConfig st),
      payload = JObj [(js ''text'', JStr text), (js ''tts'', JBool True),
                      (js ''voice'', voice_of m)]\<rparr>"

text \<open>
  The timer is cleared as soon as \<^verbatim>\<open>await fetch\<close> returns; the body is read after that,
  with no timer running. A run in which the read of the body never completes has called
  \<^verbatim>\<open>fetch\<close> once and never calls \<^verbatim>\<open>sendResponse\<close>.
\<close>

definition waiting :: "fetch_request \<Rightarrow> storage \<Rightarrow> outcome" where
  "waiting req st = \<lparr>responses = [], fetches = [req], stored = st, returned_true = True\<rparr>"

text \<open>
  The branch for \<^verbatim>\<open>TRANSLATE_TEXT\<close>, with the time \<open>tmo\<close> the timer was armed with and the
  trimmed text. \<open>fetch_translation\<close> is the part after the cache check: the call of the
  proxy and the cache write, starting from the storage \<open>st\<close> that the cache read left.
\<close>

definition fetch_translation :: "env \<Rightarrow> nat \<Rightarrow> message \<Rightarrow> jsstring \<Rightarrow> storage \<Rightarrow> outcome" where
  "fetch_translation e tmo m text st =
     (let key = cacheKey (target_of m) text;
          req = translate_request (storage0 e) m text
      in case await_fetch tmo (network e req) of
           Inl err \<Rightarrow>
             \<lparr>responses = [on_error err], fetches = [req], stored = st, returned_true = True\<rparr>
         | Inr resp \<Rightarrow>
             if \<not> ok resp then
               (case resp_text resp of
                  None \<Rightarrow> waiting req st
                | Some msg \<Rightarrow>
                    \<lparr>responses = [Failure (proxy_error_status (status resp) msg)],
                     fetches = [req], stored = st, returned_true = True\<rparr>)
             else
               (case resp_json resp of
                  None \<Rightarrow> waiting req st
                | Some data \<Rightarrow>
                    if \<not> truthy data then
                      \<lparr>responses = [Failure invalid_response], fetches = [req],
                       stored = st, returned_true = True\<rparr>
                    else
                      (case (if truthy_opt (field data (js ''translation''))
                             then field data (js ''translation'') else None) of
                         Some tr \<Rightarrow>
                           \<lparr>responses = [Translation tr False], fetches = [req],
                            stored = setCachedTranslation (now_write e) key tr st,
                            returned_true = True\<rparr>
                       | None \<Rightarrow>
                           if truthy_opt (field data (js ''error'')) then
                             \<lparr>responses = [Failure (proxy_error_detail data)],
                              fetches = [req], stored = st, returned_true = True\<rparr>
                           else
                             \<lparr>responses = [Failure (proxy_no_translation data)],
                              fetches = [req], stored = st, returned_true = True\<rparr>)))"

definition translate_text :: "env \<Rightarrow> nat \<Rightarrow> message \<Rightarrow> jsstring \<Rightarrow> outcome" where
  "translate_text e tmo m text =
     (let key = cacheKey (target_of m) text;
          (cached, st) = getCachedTranslation (now_read e) key (storage0 e)
      in case (if truthy_opt cached then cached else None) of
           Some v \<Rightarrow>
             \<lparr>responses = [Translation v True], fetches = [], stored = st, returned_true = True\<rparr>
         | None \<Rightarrow> fetch_translation e tmo m text st)"

text \<open>The branch for \<^verbatim>\<open>ANALYZE_TEXT\<close>.\<close>

definition analyze_text :: "env \<Rightarrow> nat \<Rightarrow> message \<Rightarrow> jsstring \<Rightarrow> outcome" where
  "analyze_text e tmo m text =
     (let req = analyze_request (storage0 e) text
      in case await_fetch tmo (network e req) of
           Inl err \<Rightarrow>
             \<lparr>responses = [on_error err], fetches = [req], stored = storage0 e,
              returned_true = True\<rparr>
         | Inr resp \<Rightarrow>
             if \<not> ok resp then
               (case resp_text resp of
                  None \<Rightarrow> waiting req (storage0 e)
                | Some msg \<Rightarrow>
                    \<lparr>responses = [Failure (proxy_error_status (status resp) msg)],
                     fetches = [req], stored = storage0 e, returned_true = True\<rparr>)
             else
               (case resp_json resp of
                  None \<Rightarrow> waiting req (storage0 e)
                | Some data \<Rightarrow>
                    (case (if truthy data \<and> truthy_opt (field data (js ''analysis''))
                           then field data (js ''analysis'') else None) of
                       None \<Rightarrow>
                         \<lparr>responses = [Failure (no_analysis data)], fetches = [req],
                          stored = storage0 e, returned_true = True\<rparr>
                     | Some a \<Rightarrow>
                         \<lparr>responses = [Analysis a], fetches = [req], stored = storage0 e,
                          returned_true = True\<rparr>)))"

text \<open>The branch for \<^verbatim>\<open>GET_TTS\<close>.\<close>

definition get_tts :: "env \<Rightarrow> nat \<Rightarrow> message \<Rightarrow> jsstring \<Rightarrow> outcome" where
  "get_tts e tmo m text =
     (let req = tts_request (storage0 e) m text
      in case await_fetch tmo (network e req) of
           Inl err \<Rightarrow>
             \<lparr>responses = [on_error err], fetches = [req], stored = storage0 e,
              returned_true = True\<rparr>
         | Inr resp \<Rightarrow>
             if \<not> ok resp then
               (case resp_text resp of
                  None \<Rightarrow> waiting req (storage0 e)
                | Some msg \<Rightarrow>
                    \<lparr>responses = [Failure (proxy_error_status (status resp) msg)],
                     fetches = [req], stored = storage0 e, returned_true = True\<rparr>)
             else
               (case resp_json resp of
                  None \<Rightarrow> waiting req (storage0 e)
                | Some data \<Rightarrow>
                    (case (if truthy data \<and> truthy_opt (field data (js ''audio''))
                           then field data (js ''audio'') else None) of
                       None \<Rightarrow>
                         \<lparr>responses = [Failure (no_audio data)], fetches = [req],
                          stored = storage0 e, returned_true = True\<rparr>
                     | Some a \<Rightarrow>
                         \<lparr>responses =
                            [Audio a (case (if truthy_opt (field data (js ''mime''))
                                            then field data (js ''mime'') else None) of
                                        None \<Rightarrow> JStr (js ''audio/mpeg'')
                                      | Some mt \<Rightarrow> mt)],
                          fetches = [req], stored = storage0 e, returned_true = True\<rparr>)))"

text \<open>\<^verbatim>\<open>String(message.text || '').trim()\<close>\<close>

definition trimmed_text :: "message \<Rightarrow> jsstring" where
  "trimmed_text m = trim (case msg_text m of None \<Rightarrow> [] | Some s \<Rightarrow> s)"

text \<open>
  The listener registered with \<^verbatim>\<open>chrome.runtime.onMessage.addListener\<close>. A missing message
  or a missing or empty \<^verbatim>\<open>type\<close> makes it return at once, without a response.
\<close>

definition listener :: "env \<Rightarrow> message option \<Rightarrow> outcome" where
  "listener e msg =
     (case msg of
        None \<Rightarrow> \<lparr>responses = [], fetches = [], stored = storage0 e, returned_true = False\<rparr>
      | Some m \<Rightarrow>
          (case (if msg_type m = Some [] then None else msg_type m) of
             None \<Rightarrow>
               \<lparr>responses = [], fetches = [], stored = storage0 e, returned_true = False\<rparr>
           | Some ty \<Rightarrow>
               (let text = trimmed_text m;
                    tmo = timeoutMs ty
                in if text = [] then
                     \<lparr>responses = [Failure empty_text], fetches = [], stored = storage0 e,
                      returned_true = True\<rparr>
                   else if length text > 10000 then
                     \<lparr>responses = [Failure text_too_long], fetches = [], stored = storage0 e,
                      returned_true = True\<rparr>
                   else if ty = js ''TRANSLATE_TEXT'' then translate_text e tmo m text
                   else if ty = js ''ANALYZE_TEXT'' then analyze_text e tmo m text
                   else if ty = js ''GET_TTS'' then get_tts e tmo m text
                   else
                     \<lparr>responses = [Failure unknown_message_type], fetches = [],
                      stored = storage0 e, returned_true = True\<rparr>)))"

subsection \<open>Runs that call the proxy\<close>

text \<open>
  What a run answers once it has called \<^verbatim>\<open>fetch\<close> with the request \<open>f\<close>, by what the call
  and the read of the body do. \<open>fl\<close> is the failure that a failed read of a 2xx body ends
  in.
\<close>

definition answered :: "env \<Rightarrow> nat \<Rightarrow> fetch_request \<Rightarrow> failure \<Rightarrow> outcome \<Rightarrow> bool" where
  "answered e tmo f fl out \<longleftrightarrow>
     fetches out = [f] \<and> returned_true out \<and>
     (case await_fetch tmo (network e f) of
        Inl er \<Rightarrow> responses out = [on_error er]
      | Inr r \<Rightarrow>
          (case body r of
             Stalls \<Rightarrow> responses out = []
           | Fails \<Rightarrow>
               responses out =
                 [Failure (if \<not> ok r then proxy_error_status (status r) [] else fl)]
           | Delivers b \<Rightarrow>
               length (responses out) = 1 \<and>
               (\<forall>v. Translation v True \<notin> set (responses out))))"

section \<open>The proxy handler\<close>

subsection \<open>Single word or sentence\<close>

text \<open>
  \<^verbatim>\<open>s.split(/\s+/)\<close>: the pieces of \<open>s\<close> between the maximal runs of white space. White
  space at the start or at the end of \<open>s\<close> gives an empty first or last piece, and the
  empty string gives the one piece \<^verbatim>\<open>""\<close>. \<open>split_from cur s\<close> has read the piece \<open>cur\<close> so far.
\<close>

function split_from :: "jsstring \<Rightarrow> jsstring \<Rightarrow> jsstring list" where
  "split_from cur [] = [cur]"
| "split_from cur (c # cs) =
     (if is_ws c then cur # split_from [] (dropWhile is_ws cs)
      else split_from (cur @ [c]) cs)"
  by pat_completeness auto
termination
  by (relation "measure (\<lambda>(cur, s). length s)") (auto simp: le_imp_less_Suc length_dropWhile_le)

definition split_ws :: "jsstring \<Rightarrow> jsstring list" where
  "split_ws s = split_from [] s"

text \<open>\<^verbatim>\<open>/[.!?;]/.test(s)\<close>\<close>

definition has_terminal_punctuation :: "jsstring \<Rightarrow> bool" where
  "has_terminal_punctuation s = list_ex (\<lambda>c. c \<in> set (js ''.!?;'')) s"

text \<open>
  \<^verbatim>\<open>const trimmed = text.trim(); const wordCount = trimmed.split(/\s+/).length;\<close>
  \<^verbatim>\<open>const isSingleWord = wordCount === 1 && !/[.!?;]/.test(trimmed);\<close>
\<close>

definition wordCount :: "jsstring \<Rightarrow> nat" where
  "wordCount text = length (split_ws (trim text))"

definition isSingleWord :: "jsstring \<Rightarrow> bool" where
  "isSingleWord text \<longleftrightarrow> wordCount text = 1 \<and> \<not> has_terminal_punctuation (trim text)"

text \<open>
  For comparison, the specification's notion: the white-space delimited tokens of a text
  are its maximal runs of code units that are not white space. \<open>tokens_from cur s\<close> has read
  the run \<open>cur\<close> so far.
\<close>

fun tokens_from :: "jsstring \<Rightarrow> jsstring \<Rightarrow> jsstring list" where
  "tokens_from cur [] = (if cur = [] then [] else [cur])"
| "tokens_from cur (c # cs) =
     (if is_ws c then (if cur = [] then tokens_from [] cs else cur # tokens_from [] cs)
      else tokens_from (cur @ [c]) cs)"

definition whitespace_tokens :: "jsstring \<Rightarrow> jsstring list" where
  "whitespace_tokens s = tokens_from [] s"

subsection \<open>Recovering JSON from the model's answer\<close>

definition lower_ascii :: "jschar \<Rightarrow> jschar" where
  "lower_ascii c = (if ch CHR ''A'' \<le> c \<and> c \<le> ch CHR ''Z'' then c + 0x20 else c)"

text \<open>
  \<^verbatim>\<open>content.replace(/^```(?:json)?\s*/i, '')\<close>: a fence at the very start of the text is
  removed, with the word \<^verbatim>\<open>json\<close> (in any letter case) after it if there is one, and the
  white space that follows.
\<close>

definition strip_leading_fence :: "jsstring \<Rightarrow> jsstring" where
  "strip_leading_fence s =
     (if take 3 s = js ''```'' then
        (let r = drop 3 s;
             r' = (if map lower_ascii (take 4 r) = js ''json'' then drop 4 r else r)
         in dropWhile is_ws r')
      else s)"

text \<open>
  \<^verbatim>\<open>content.replace(/```\s*$/i, '')\<close>: the text is cut at the leftmost fence that is
  followed by nothing but white space up to the end of the text.
\<close>

fun strip_trailing_fence :: "jsstring \<Rightarrow> jsstring" where
  "strip_trailing_fence [] = []"
| "strip_trailing_fence (c # cs) =
     (if take 3 (c # cs) = js ''```'' \<and> list_all is_ws (drop 2 cs) then []
      else c # strip_trailing_fence cs)"

text \<open>
  \<^verbatim>\<open>content.match(/\{[\s\S]*\}/)\<close>: the match starts at the first opening brace and, the
  star being greedy, ends at the last closing brace after it; there is no match when no
  closing brace follows the first opening brace.
\<close>

definition match_braces :: "jsstring \<Rightarrow> jsstring option" where
  "match_braces s =
     (case dropWhile (\<lambda>c. c \<noteq> ch CHR ''{'') s of
        [] \<Rightarrow> None
      | b # rest \<Rightarrow>
          (case rev (dropWhile (\<lambda>c. c \<noteq> ch CHR ''}'') (rev rest)) of
             [] \<Rightarrow> None
           | inner \<Rightarrow> Some (b # inner)))"

text \<open>
  The result of the recovery: the parsed value, or the error \<^verbatim>\<open>invalid_analysis\<close> with the
  cleaned text as \<^verbatim>\<open>raw\<close> and a hint.
\<close>

datatype parse_outcome =
    Parsed json
  | invalid_analysis jsstring jsstring

text \<open>The clean-up: trim, then remove the fences.\<close>

definition clean_content :: "jsstring \<Rightarrow> jsstring" where
  "clean_content raw = strip_trailing_fence (strip_leading_fence (trim raw))"

text \<open>The \<^verbatim>\<open>try { JSON.parse(content) } catch { ... }\<close> cascade on the cleaned text.\<close>

definition parse_content :: "jsstring \<Rightarrow> parse_outcome" where
  "parse_content content =
     (case JSON_parse content of
        Some v \<Rightarrow> Parsed v
      | None \<Rightarrow>
          (case match_braces content of
             Some jsonMatch \<Rightarrow>
               (case JSON_parse jsonMatch of
                  Some v \<Rightarrow> Parsed v
                | None \<Rightarrow>
                    invalid_analysis content (js ''Could not parse model output as JSON''))
           | None \<Rightarrow> invalid_analysis content (js ''No JSON structure found in response'')))"

text \<open>
  The test after the recovery, \<^verbatim>\<open>parsed && typeof parsed === 'object'\<close>: an object or an
  array.
\<close>

fun is_object :: "json \<Rightarrow> bool" where
  "is_object (JObj _) = True"
| "is_object (JArr _) = True"
| "is_object _ = False"

text \<open>
  The recovery as a whole, from \<^verbatim>\<open>content = content.trim()\<close> to the end of the
  \<^verbatim>\<open>try\<close>/\<^verbatim>\<open>catch\<close> cascade.
\<close>

definition parse_model_output :: "jsstring \<Rightarrow> parse_outcome" where
  "parse_model_output raw = parse_content (clean_content raw)"

text \<open>\<^verbatim>\<open>parsed.k = parsed.k || []\<close>\<close>

definition default_array :: "(jsstring \<times> json) list \<Rightarrow> jsstring \<Rightarrow> (jsstring \<times> json) list" where
  "default_array ms k = (if truthy_opt (map_of (rev ms) k) then ms else obj_set ms k (JArr []))"

definition ensure_fields :: "json \<Rightarrow> json" where
  "ensure_fields parsed =
     (case parsed of
        JObj ms \<Rightarrow>
          if field parsed (js ''type'') = Some (JStr (js ''word'')) then
            JObj (default_array (default_array (default_array ms (js ''synonyms''))
                    (js ''antonyms'')) (js ''examples''))
          else if field parsed (js ''type'') = Some (JStr (js ''sentence'')) then
            JObj (default_array (default_array ms (js ''words'')) (js ''examples''))
          else parsed
      | _ \<Rightarrow> parsed)"

subsection \<open>Requests, the environment and the upstream providers\<close>

text \<open>
  A request: the method, \<^verbatim>\<open>req.body\<close> as the platform hands it over (\<open>None\<close> when it is
  undefined), and what reading the request stream gives (the text, or the error of the
  stream).
\<close>

record http_request =
  req_method :: jsstring
  req_body :: "json option"
  req_stream :: "js_error + jsstring"

text \<open>
  The prompts are kept abstract: which of the three templates is filled in, and with what.
  A call to a provider is a chat completion with a model name and a prompt, or a
  text-to-speech call with a voice and a text.
\<close>

datatype prompt =
    WordAnalysisPrompt jsstring
  | SentenceAnalysisPrompt jsstring
  | TranslationPrompt json jsstring

datatype upstream_call =
    ChatCompletion jsstring prompt
  | TextToSpeech json jsstring

text \<open>
  A provider's answer: the call throws, or there is a response with a status and a body
  (the error of the body read, or its text; for the speech provider the text is the
  base64 form of the audio bytes).
\<close>

record upstream_response =
  up_status :: nat
  up_body :: "js_error + jsstring"

datatype upstream_reply =
    Throws js_error
  | Replies upstream_response

definition up_ok :: "upstream_response \<Rightarrow> bool" where
  "up_ok r \<longleftrightarrow> 200 \<le> up_status r \<and> up_status r \<le> 299"

text \<open>
  The environment of the handler: the variables of \<^verbatim>\<open>process.env\<close>, the providers, the
  \<^verbatim>\<open>SyntaxError\<close> that \<^verbatim>\<open>JSON.parse\<close> throws on a text, and the \<^verbatim>\<open>TypeError\<close> thrown when
  \<^verbatim>\<open>.trim()\<close> is called on a value that is not a string.
\<close>

record server_env =
  OPENAI_API_KEY :: "jsstring option"
  OPENAI_MODEL :: "jsstring option"
  ELEVENLABS_KEY :: "jsstring option"
  ELEVEN_API_KEY :: "jsstring option"
  ELEVEN_VOICE_ID :: "jsstring option"
  provider :: "upstream_call \<Rightarrow> upstream_reply"
  syntax_error :: "jsstring \<Rightarrow> js_error"
  type_error :: js_error

text \<open>
  The handler's answer: status, JSON body (\<open>None\<close> for an empty body), provider calls. The
  response headers are left out.
\<close>

record handler_result =
  http_status :: nat
  reply :: "json option"
  upstream :: "upstream_call list"

text \<open>\<^verbatim>\<open>v || d\<close> on an environment variable or any other optional string.\<close>

definition nonempty :: "jsstring option \<Rightarrow> jsstring option" where
  "nonempty v = (case v of None \<Rightarrow> None | Some s \<Rightarrow> if s \<noteq> [] then Some s else None)"

text \<open>\<^verbatim>\<open>String(e)\<close> and \<^verbatim>\<open>String(err?.message || err)\<close> for an error.\<close>

definition String_of_error :: "js_error \<Rightarrow> jsstring" where
  "String_of_error e =
     (if err_name e = [] then err_message e
      else if err_message e = [] then err_name e
      else err_name e @ js '': '' @ err_message e)"

definition message_of_error :: "js_error \<Rightarrow> jsstring" where
  "message_of_error e = (if err_message e \<noteq> [] then err_message e else String_of_error e)"

definition error_reply :: "nat \<Rightarrow> string \<Rightarrow> (jsstring \<times> json) list \<Rightarrow> upstream_call list \<Rightarrow> handler_result" where
  "error_reply st code extra calls =
     \<lparr>http_status = st, reply = Some (JObj ((js ''error'', JStr (js code)) # extra)),
      upstream = calls\<rparr>"

text \<open>The outer \<^verbatim>\<open>catch (err)\<close> of the handler.\<close>

definition proxy_failed :: "js_error \<Rightarrow> upstream_call list \<Rightarrow> handler_result" where
  "proxy_failed e calls =
     error_reply 500 ''proxy_failed'' [(js ''message'', JStr (message_of_error e))] calls"

text \<open>Optional chaining: \<^verbatim>\<open>v?.k\<close> and \<^verbatim>\<open>v?.[0]\<close>.\<close>

definition opt_field :: "json option \<Rightarrow> jsstring \<Rightarrow> json option" where
  "opt_field v k = (case v of None \<Rightarrow> None | Some x \<Rightarrow> field x k)"

fun index0 :: "json \<Rightarrow> json option" where
  "index0 (JArr (x # xs)) = Some x"
| "index0 (JObj ms) = map_of (rev ms) (js ''0'')"
| "index0 (JStr (c # cs)) = Some (JStr [c])"
| "index0 _ = None"

text \<open>\<^verbatim>\<open>data?.choices?.[0]?.message?.content\<close>\<close>

definition chat_content :: "json \<Rightarrow> json option" where
  "chat_content data =
     opt_field (opt_field (case field data (js ''choices'') of None \<Rightarrow> None | Some c \<Rightarrow> index0 c)
                  (js ''message'')) (js ''content'')"

subsection \<open>The three paths\<close>

text \<open>
  The analyze path, from the classification of the text to the answer. \<open>model\<close> is
  \<^verbatim>\<open>process.env.OPENAI_MODEL || 'gpt-3.5-turbo'\<close>.
\<close>

definition analyze_path :: "server_env \<Rightarrow> jsstring \<Rightarrow> jsstring \<Rightarrow> handler_result" where
  "analyze_path e model text =
     (let trimmed = trim text;
          call = ChatCompletion model
                   (if isSingleWord text then WordAnalysisPrompt trimmed
                    else SentenceAnalysisPrompt trimmed)
      in case provider e call of
           Throws err \<Rightarrow> proxy_failed err [call]
         | Replies resp \<Rightarrow>
             (case up_body resp of
                Inl err \<Rightarrow> proxy_failed err [call]
              | Inr txt \<Rightarrow>
                  if \<not> up_ok resp then
                    error_reply 502 ''openai_error'' [(js ''detail'', JStr txt)] [call]
                  else
                    (case JSON_parse txt of
                       None \<Rightarrow> proxy_failed (syntax_error e txt) [call]
                     | Some data \<Rightarrow>
                         (case (if truthy_opt (chat_content data) then chat_content data
                                else Some (JStr [])) of
                            Some (JStr content) \<Rightarrow>
                              (case parse_model_output content of
                                 invalid_analysis raw hint \<Rightarrow>
                                   error_reply 502 ''invalid_analysis''
                                     [(js ''raw'', JStr raw), (js ''hint'', JStr hint)] [call]
                               | Parsed parsed \<Rightarrow>
                                   if \<not> is_object parsed then
                                     error_reply 502 ''invalid_analysis''
                                       [(js ''raw'', JStr (clean_content content)),
                                        (js ''hint'', JStr (js ''Parsed result is not an object''))]
                                       [call]
                                   else
                                     \<lparr>http_status = 200,
                                      reply = Some (JObj [(js ''analysis'', ensure_fields parsed)]),
                                      upstream = [call]\<rparr>)
                          | _ \<Rightarrow> proxy_failed (type_error e) [call]))))"

text \<open>
  The speech path. The inner \<^verbatim>\<open>try\<close> turns every error of the call into \<^verbatim>\<open>tts_failed\<close>.
\<close>

definition tts_path :: "server_env \<Rightarrow> jsstring \<Rightarrow> json option \<Rightarrow> handler_result" where
  "tts_path e text voice =
     (let ELEVEN_KEY = (case nonempty (ELEVENLABS_KEY e) of
                          Some k \<Rightarrow> Some k
                        | None \<Rightarrow> nonempty (ELEVEN_API_KEY e));
          ELEVEN_VOICE = (case nonempty (ELEVEN_VOICE_ID e) of
                            Some v \<Rightarrow> Some (JStr v)
                          | None \<Rightarrow> if truthy_opt voice then voice else None)
      in case (ELEVEN_KEY, ELEVEN_VOICE) of
           (Some k, Some v) \<Rightarrow>
             (let call = TextToSpeech v text
              in case provider e call of
                   Throws err \<Rightarrow>
                     error_reply 502 ''tts_failed''
                       [(js ''message'', JStr (message_of_error err))] [call]
                 | Replies resp \<Rightarrow>
                     if \<not> up_ok resp then
                       error_reply 502 ''eleven_error''
                         [(js ''status'', JNum (of_nat (up_status resp))),
                          (js ''detail'',
                           JStr (case up_body resp of Inl err \<Rightarrow> [] | Inr txt \<Rightarrow> txt))]
                         [call]
                     else
                       (case up_body resp of
                          Inl err \<Rightarrow>
                            error_reply 502 ''tts_failed''
                              [(js ''message'', JStr (message_of_error err))] [call]
                        | Inr audioBase64 \<Rightarrow>
                            \<lparr>http_status = 200,
                             reply = Some (JObj [(js ''audio'', JStr audioBase64),
                                                 (js ''mime'', JStr (js ''audio/mpeg''))]),
                             upstream = [call]\<rparr>))
         | _ \<Rightarrow>
             error_reply 500 ''tts_not_configured''
               [(js ''detail'',
                 JStr (js ''Missing ELEVENLABS_KEY or ELEVEN_VOICE_ID in server env''))] [])"

text \<open>The default path: translation into \<^verbatim>\<open>target || 'it'\<close>.\<close>

definition translate_path :: "server_env \<Rightarrow> jsstring \<Rightarrow> jsstring \<Rightarrow> json option \<Rightarrow> handler_result" where
  "translate_path e model text target =
     (let call = ChatCompletion model
                   (TranslationPrompt
                      (case (if truthy_opt target then target else None) of
                         Some t \<Rightarrow> t
                       | None \<Rightarrow> JStr (js ''it''))
                      text)
      in case provider e call of
           Throws err \<Rightarrow> proxy_failed err [call]
         | Replies resp \<Rightarrow>
             (case up_body resp of
                Inl err \<Rightarrow> proxy_failed err [call]
              | Inr txt \<Rightarrow>
                  if \<not> up_ok resp then
                    error_reply 502 ''openai_error'' [(js ''detail'', JStr txt)] [call]
                  else
                    (case JSON_parse txt of
                       None \<Rightarrow> proxy_failed (syntax_error e txt) [call]
                     | Some data \<Rightarrow>
                         (case chat_content data of
                            None \<Rightarrow> error_reply 502 ''no_translation'' [(js ''raw'', data)] [call]
                          | Some JNull \<Rightarrow>
                              error_reply 502 ''no_translation'' [(js ''raw'', data)] [call]
                          | Some (JStr content) \<Rightarrow>
                              if trim content = [] then
                                error_reply 502 ''no_translation'' [(js ''raw'', data)] [call]
                              else
                                \<lparr>http_status = 200,
                                 reply = Some (JObj [(js ''translation'', JStr (trim content))]),
                                 upstream = [call]\<rparr>
                          | Some _ \<Rightarrow> proxy_failed (type_error e) [call]))))"

subsection \<open>The handler\<close>

datatype action = Analyze | Synthesize | Translate

text \<open>
  The two tests that choose the path: \<^verbatim>\<open>if (action === 'analyze')\<close>, then \<^verbatim>\<open>if (tts)\<close>, then
  the default.
\<close>

definition select_action :: "json \<Rightarrow> action" where
  "select_action b =
     (if field b (js ''action'') = Some (JStr (js ''analyze'')) then Analyze
      else if truthy_opt (field b (js ''tts'')) then Synthesize
      else Translate)"

text \<open>
  The \<^verbatim>\<open>try\<close> block of the handler for a POST request, with the body after the first
  step. \<^verbatim>\<open>req.body || {}\<close> is the body the members are read from.
\<close>

definition handle_post :: "server_env \<Rightarrow> json option \<Rightarrow> handler_result" where
  "handle_post e body0 =
     (let b = (case (if truthy_opt body0 then body0 else None) of
                 Some v \<Rightarrow> v
               | None \<Rightarrow> JObj [])
      in case field b (js ''text'') of
           Some (JStr text) \<Rightarrow>
             if text = [] then error_reply 400 ''missing_text'' [] []
             else if length text > 10000 then error_reply 400 ''text_too_long'' [] []
             else
               (case nonempty (OPENAI_API_KEY e) of
                  None \<Rightarrow> error_reply 500 ''server_misconfigured'' [] []
                | Some OPENAI_KEY \<Rightarrow>
                    (let model = (case nonempty (OPENAI_MODEL e) of
                                    Some mo \<Rightarrow> mo
                                  | None \<Rightarrow> js ''gpt-3.5-turbo'')
                     in case select_action b of
                          Analyze \<Rightarrow> analyze_path e model text
                        | Synthesize \<Rightarrow> tts_path e text (field b (js ''voice''))
                        | Translate \<Rightarrow> translate_path e model text (field b (js ''target''))))
         | _ \<Rightarrow> error_reply 400 ''missing_text'' [] [])"

text \<open>
  The handler. A POST request without a body is first read from the stream and parsed;
  \<^verbatim>\<open>OPTIONS\<close> is answered with an empty 200, every other method but POST with 405.
\<close>

definition handler :: "server_env \<Rightarrow> http_request \<Rightarrow> handler_result" where
  "handler e req =
     (let read = (if req_method req = js ''POST'' \<and> \<not> truthy_opt (req_body req) then
                    (case req_stream req of
                       Inl err \<Rightarrow> Inl err
                     | Inr txt \<Rightarrow>
                         (case JSON_parse txt of
                            None \<Rightarrow> Inl (syntax_error e txt)
                          | Some v \<Rightarrow> Inr (Some v)))
                  else Inr (req_body req))
      in case read of
           Inl err \<Rightarrow>
             error_reply 400 ''invalid_json'' [(js ''detail'', JStr (String_of_error err))] []
         | Inr body0 \<Rightarrow>
             if req_method req = js ''OPTIONS'' then
               \<lparr>http_status = 200, reply = None, upstream = []\<rparr>
             else if req_method req \<noteq> js ''POST'' then
               error_reply 405 ''method_not_allowed'' [] []
             else handle_post e body0)"

section \<open>Example inputs\<close>

text \<open>Concrete storage areas, transports, environments and messages.\<close>

definition empty_storage :: storage where
  "empty_storage = \<lparr>proxyUrl = None, proxyToken = None, translationCacheV1 = Map.empty\<rparr>"

definition dead_network :: "fetch_request \<Rightarrow> fetch_behaviour" where
  "dead_network r = Never"

definition late_network :: "fetch_request \<Rightarrow> fetch_behaviour" where
  "late_network r = Fulfils 20000 \<lparr>status = 200, body = Delivers (js ''{}'')\<rparr>"

definition broken_network :: "fetch_request \<Rightarrow> fetch_behaviour" where
  "broken_network r = Rejects 40 \<lparr>err_name = js ''TypeError'', err_message = js ''Failed to fetch''\<rparr>"

definition stalled_network :: "fetch_request \<Rightarrow> fetch_behaviour" where
  "stalled_network r = Fulfils 40 \<lparr>status = 200, body = Stalls\<rparr>"

definition dropped_network :: "fetch_request \<Rightarrow> fetch_behaviour" where
  "dropped_network r = Fulfils 40 \<lparr>status = 200, body = Fails\<rparr>"

definition quiet_env :: env where
  "quiet_env = \<lparr>storage0 = empty_storage, now_read = 0, now_write = 0, network = dead_network\<rparr>"

definition late_env :: env where
  "late_env = \<lparr>storage0 = empty_storage, now_read = 0, now_write = 0, network = late_network\<rparr>"

definition broken_env :: env where
  "broken_env = \<lparr>storage0 = empty_storage, now_read = 0, now_write = 0, network = broken_network\<rparr>"

definition stalled_env :: env where
  "stalled_env = \<lparr>storage0 = empty_storage, now_read = 0, now_write = 0, network = stalled_network\<rparr>"

definition dropped_env :: env where
  "dropped_env = \<lparr>storage0 = empty_storage, now_read = 0, now_write = 0, network = dropped_network\<rparr>"

text \<open>A cache that holds the empty string as the translation of \<^verbatim>\<open>hello\<close> into \<^verbatim>\<open>it\<close>.\<close>

definition hollow_storage :: storage where
  "hollow_storage =
     \<lparr>proxyUrl = None, proxyToken = None,
      translationCacheV1 = [js ''t:it|hello'' \<mapsto> \<lparr>translation = JStr [], ts = 0\<rparr>]\<rparr>"

definition hollow_env :: env where
  "hollow_env = \<lparr>storage0 = hollow_storage, now_read = 1000, now_write = 2000, network = dead_network\<rparr>"


definition untyped_blank_message :: message where
  "untyped_blank_message =
     \<lparr>msg_type = None, msg_text = Some (js ''   ''), msg_target = None, msg_voice = None\<rparr>"



definition hello_message :: message where
  "hello_message =
     \<lparr>msg_type = Some (js ''TRANSLATE_TEXT''), msg_text = Some (js ''hello''), msg_target = None,
      msg_voice = None\<rparr>"

definition blank_message :: message where
  "blank_message =
     \<lparr>msg_type = Some (js ''TRANSLATE_TEXT''), msg_text = Some (js ''   ''), msg_target = None,
      msg_voice = None\<rparr>"

definition long_message :: message where
  "long_message =
     \<lparr>msg_type = Some (js ''TRANSLATE_TEXT''), msg_text = Some (replicate 10001 (ch CHR ''a'')),
      msg_target = None, msg_voice = None\<rparr>"

definition hello_request :: fetch_request where
  "hello_request =
     \<lparr>url = js ''https://smarttranslateplus-f5y4.vercel.app/api/translate'',
      headers = [(js ''Content-Type'', js ''application/json'')],
      payload = JObj [(js ''text'', JStr (js ''hello'')), (js ''target'', JStr (js ''it''))]\<rparr>"

text \<open>A configured server whose providers cannot be reached, and three requests.\<close>

definition unreachable :: "upstream_call \<Rightarrow> upstream_reply" where
  "unreachable c = Throws \<lparr>err_name = js ''TypeError'', err_message = js ''fetch failed''\<rparr>"

definition unexpected_token :: "jsstring \<Rightarrow> js_error" where
  "unexpected_token s = \<lparr>err_name = js ''SyntaxError'', err_message = js ''Unexpected token''\<rparr>"

definition configured_env :: server_env where
  "configured_env =
     \<lparr>OPENAI_API_KEY = Some (js ''sk-test''), OPENAI_MODEL = None,
      ELEVENLABS_KEY = Some (js ''el-test''), ELEVEN_API_KEY = None,
      ELEVEN_VOICE_ID = Some (js ''voice-1''), provider = unreachable,
      syntax_error = unexpected_token,
      type_error = \<lparr>err_name = js ''TypeError'', err_message = js ''not a function''\<rparr>\<rparr>"

definition post :: "json \<Rightarrow> http_request" where
  "post b = \<lparr>req_method = js ''POST'', req_body = Some b, req_stream = Inr []\<rparr>"

definition tts_number_body :: json where
  "tts_number_body = JObj [(js ''text'', JStr (js ''hello'')), (js ''tts'', JNum 1)]"

definition analyze_word_body :: json where
  "analyze_word_body =
     JObj [(js ''text'', JStr (js ''serendipity'')), (js ''action'', JStr (js ''analyze'')),
           (js ''tts'', JBool True)]"

definition analyze_blank_body :: json where
  "analyze_blank_body =
     JObj [(js ''text'', JStr (js ''   '')), (js ''action'', JStr (js ''analyze''))]"

section \<open>Properties of the translation cache\<close>

text \<open>
  Claim C4. A translation stored with \<open>setCachedTranslation\<close> is returned by a read of the
  same key as long as the age of the entry does not exceed the 24 hour TTL. A read that
  finds an entry older than the TTL returns nothing and leaves a storage in which the key
  is gone.
\<close>

theorem cache_round_trip:
  "(now' - now \<le> CACHE_TTL_MS \<longrightarrow>
      fst (getCachedTranslation now' k (setCachedTranslation now k v st)) = Some v) \<and>
   (translationCacheV1 st k = Some e \<and> now' - ts e > CACHE_TTL_MS \<longrightarrow>
      fst (getCachedTranslation now' k st) = None \<and>
      translationCacheV1 (snd (getCachedTranslation now' k st)) k = None)"
  by (simp add: getCachedTranslation_def setCachedTranslation_def Let_def)

theorem cache_round_trip_witness:
  "fst (getCachedTranslation 5000 (js ''t:it|hello'')
         (setCachedTranslation 1000 (js ''t:it|hello'') (JStr (js ''ciao''))
            \<lparr>proxyUrl = None, proxyToken = None, translationCacheV1 = Map.empty\<rparr>))
     = Some (JStr (js ''ciao'')) \<and>
   fst (getCachedTranslation 86401001 (js ''t:it|hello'')
         (setCachedTranslation 1000 (js ''t:it|hello'') (JStr (js ''ciao''))
            \<lparr>proxyUrl = None, proxyToken = None, translationCacheV1 = Map.empty\<rparr>))
     = None \<and>
   translationCacheV1 (snd (getCachedTranslation 86401001 (js ''t:it|hello'')
         (setCachedTranslation 1000 (js ''t:it|hello'') (JStr (js ''ciao''))
            \<lparr>proxyUrl = None, proxyToken = None, translationCacheV1 = Map.empty\<rparr>)))
      (js ''t:it|hello'') = None"
proof -
  let ?k = "js ''t:it|hello''"
  let ?v = "JStr (js ''ciao'')"
  let ?st0 = "\<lparr>proxyUrl = None, proxyToken = None, translationCacheV1 = Map.empty\<rparr>"
  let ?st = "setCachedTranslation 1000 ?k ?v ?st0"
  have fresh: "(5000::int) - 1000 \<le> CACHE_TTL_MS"
    by (simp add: CACHE_TTL_MS_def)
  have stored: "translationCacheV1 ?st ?k = Some \<lparr>translation = ?v, ts = 1000\<rparr>"
    by (simp add: setCachedTranslation_def)
  have old: "(86401001::int) - ts \<lparr>translation = ?v, ts = 1000\<rparr> > CACHE_TTL_MS"
    by (simp add: CACHE_TTL_MS_def)
  have a: "fst (getCachedTranslation 5000 ?k ?st) = Some ?v"
    by (rule cache_round_trip [THEN conjunct1, THEN mp, OF fresh])
  have b: "fst (getCachedTranslation 86401001 ?k ?st) = None \<and>
           translationCacheV1 (snd (getCachedTranslation 86401001 ?k ?st)) ?k = None"
    by (rule cache_round_trip [THEN conjunct2, THEN mp, OF conjI [OF stored old]])
  from a b show ?thesis by simp
qed

text \<open>
  Claim C9. When a read of key \<open>k\<close> finds an expired entry, the storage written back
  differs from the one read only at \<open>k\<close>: every other cache key keeps its entry
  (translation and timestamp), and the proxy settings are untouched.
\<close>

theorem purge_frame:
  assumes "translationCacheV1 st k = Some e" and "now - ts e > CACHE_TTL_MS" and "k' \<noteq> k"
  shows "translationCacheV1 (snd (getCachedTranslation now k st)) k' = translationCacheV1 st k' \<and>
         proxyUrl (snd (getCachedTranslation now k st)) = proxyUrl st \<and>
         proxyToken (snd (getCachedTranslation now k st)) = proxyToken st"
  using assms by (simp add: getCachedTranslation_def Let_def)

theorem purge_frame_witness:
  "translationCacheV1 (snd (getCachedTranslation 90000000 (js ''t:it|old'')
      \<lparr>proxyUrl = None, proxyToken = None,
       translationCacheV1 = [js ''t:it|old'' \<mapsto> \<lparr>translation = JStr (js ''vecchio''), ts = 0\<rparr>,
                             js ''t:it|new'' \<mapsto> \<lparr>translation = JStr (js ''nuovo''), ts = 80000000\<rparr>]\<rparr>))
     (js ''t:it|new'') = Some \<lparr>translation = JStr (js ''nuovo''), ts = 80000000\<rparr>"
proof -
  let ?st = "\<lparr>proxyUrl = None, proxyToken = None,
       translationCacheV1 = [js ''t:it|old'' \<mapsto> \<lparr>translation = JStr (js ''vecchio''), ts = 0\<rparr>,
                             js ''t:it|new'' \<mapsto> \<lparr>translation = JStr (js ''nuovo''), ts = 80000000\<rparr>]\<rparr>"
  have stored: "translationCacheV1 ?st (js ''t:it|old'') =
      Some \<lparr>translation = JStr (js ''vecchio''), ts = 0\<rparr>"
    by (simp add: js_def)
  have old: "(90000000::int) - ts \<lparr>translation = JStr (js ''vecchio''), ts = 0\<rparr> > CACHE_TTL_MS"
    by (simp add: CACHE_TTL_MS_def)
  have other: "js ''t:it|new'' \<noteq> js ''t:it|old''"
    by (simp add: js_def)
  have "translationCacheV1 (snd (getCachedTranslation 90000000 (js ''t:it|old'') ?st)) (js ''t:it|new'')
        = translationCacheV1 ?st (js ''t:it|new'')"
    by (rule purge_frame [OF stored old other, THEN conjunct1])
  then show ?thesis by simp
qed

section \<open>Properties of the dispatcher\<close>

subsection \<open>Auxiliary facts\<close>

lemma on_error_AbortError: "on_error AbortError = Failure timeout"
  by (simp add: on_error_def AbortError_def)

lemma await_fetch_expired: "expired d b \<Longrightarrow> await_fetch d b = Inl AbortError"
  by (cases b) (simp_all add: expired_def await_fetch_def)

lemma await_fetch_Rejects: "t < d \<Longrightarrow> await_fetch d (Rejects t er) = Inl er"
  by (simp add: await_fetch_def)



lemma fetch_translation_answered:
  "answered e tmo (translate_request (storage0 e) m s) invalid_response
     (fetch_translation e tmo m s st)"
proof (cases "await_fetch tmo (network e (translate_request (storage0 e) m s))")
  case (Inl er)
  then show ?thesis
    by (simp add: answered_def fetch_translation_def Let_def)
next
  case (Inr r)
  show ?thesis
  proof (cases "body r")
    case Stalls
    with Inr show ?thesis
      by (simp add: answered_def fetch_translation_def Let_def resp_text_def resp_json_def
          waiting_def)
  next
    case Fails
    with Inr show ?thesis
      by (simp add: answered_def fetch_translation_def Let_def resp_text_def resp_json_def)
  next
    case (Delivers b)
    with Inr show ?thesis
      by (simp add: answered_def fetch_translation_def Let_def resp_text_def resp_json_def
          split: option.splits)
  qed
qed

lemma analyze_text_answered:
  "answered e tmo (analyze_request (storage0 e) s) (no_analysis JNull) (analyze_text e tmo m s)"
proof (cases "await_fetch tmo (network e (analyze_request (storage0 e) s))")
  case (Inl er)
  then show ?thesis
    by (simp add: answered_def analyze_text_def Let_def)
next
  case (Inr r)
  show ?thesis
  proof (cases "body r")
    case Stalls
    with Inr show ?thesis
      by (simp add: answered_def analyze_text_def Let_def resp_text_def resp_json_def
          waiting_def)
  next
    case Fails
    with Inr show ?thesis
      by (simp add: answered_def analyze_text_def Let_def resp_text_def resp_json_def)
  next
    case (Delivers b)
    with Inr show ?thesis
      by (simp add: answered_def analyze_text_def Let_def resp_text_def resp_json_def
          split: option.splits)
  qed
qed

lemma get_tts_answered:
  "answered e tmo (tts_request (storage0 e) m s) (no_audio JNull) (get_tts e tmo m s)"
proof (cases "await_fetch tmo (network e (tts_request (storage0 e) m s))")
  case (Inl er)
  then show ?thesis
    by (simp add: answered_def get_tts_def Let_def)
next
  case (Inr r)
  show ?thesis
  proof (cases "body r")
    case Stalls
    with Inr show ?thesis
      by (simp add: answered_def get_tts_def Let_def resp_text_def resp_json_def waiting_def)
  next
    case Fails
    with Inr show ?thesis
      by (simp add: answered_def get_tts_def Let_def resp_text_def resp_json_def)
  next
    case (Delivers b)
    with Inr show ?thesis
      by (simp add: answered_def get_tts_def Let_def resp_text_def resp_json_def
          split: option.splits)
  qed
qed

lemma translate_text_cases:
  "(\<exists>v st. translate_text e tmo m s =
      \<lparr>responses = [Translation v True], fetches = [], stored = st, returned_true = True\<rparr>) \<or>
   (\<exists>st. translate_text e tmo m s = fetch_translation e tmo m s st)"
  by (auto simp: translate_text_def Let_def split: prod.splits option.splits)

text \<open>
  The runs of the listener on a message with a type: an answer without any call, or a
  call and what follows from it.
\<close>

lemma listener_typed:
  assumes "msg_type m = Some ty" and "ty \<noteq> []"
  shows "(\<exists>r st. listener e (Some m) =
            \<lparr>responses = [r], fetches = [], stored = st, returned_true = True\<rparr>) \<or>
         (\<exists>f. answered e (timeoutMs ty) f
            (if ty = js ''TRANSLATE_TEXT'' then invalid_response
             else if ty = js ''ANALYZE_TEXT'' then no_analysis JNull
             else no_audio JNull)
            (listener e (Some m)) \<and>
            (ty = js ''TRANSLATE_TEXT'' \<or> ty = js ''ANALYZE_TEXT'' \<or> ty = js ''GET_TTS''))"
proof -
  have d: "js ''ANALYZE_TEXT'' \<noteq> js ''TRANSLATE_TEXT''" "js ''GET_TTS'' \<noteq> js ''TRANSLATE_TEXT''"
    "js ''GET_TTS'' \<noteq> js ''ANALYZE_TEXT''"
    by (simp_all add: js_def)
  consider (invalid) "trimmed_text m = [] \<or> length (trimmed_text m) > 10000"
    | (translate) "trimmed_text m \<noteq> []" "length (trimmed_text m) \<le> 10000"
        "ty = js ''TRANSLATE_TEXT''"
    | (analyze) "trimmed_text m \<noteq> []" "length (trimmed_text m) \<le> 10000"
        "ty = js ''ANALYZE_TEXT''"
    | (tts) "trimmed_text m \<noteq> []" "length (trimmed_text m) \<le> 10000" "ty = js ''GET_TTS''"
    | (unknown) "trimmed_text m \<noteq> []" "length (trimmed_text m) \<le> 10000"
        "ty \<noteq> js ''TRANSLATE_TEXT''" "ty \<noteq> js ''ANALYZE_TEXT''" "ty \<noteq> js ''GET_TTS''"
    by fastforce
  then show ?thesis
  proof cases
    case invalid
    with assms show ?thesis by (auto simp: listener_def Let_def)
  next
    case translate
    with assms have l: "listener e (Some m) = translate_text e (timeoutMs ty) m (trimmed_text m)"
      by (simp add: listener_def Let_def)
    from translate_text_cases [of e "timeoutMs ty" m "trimmed_text m"]
    show ?thesis
    proof (elim disjE exE)
      fix v st
      assume "translate_text e (timeoutMs ty) m (trimmed_text m) =
          \<lparr>responses = [Translation v True], fetches = [], stored = st, returned_true = True\<rparr>"
      then show ?thesis unfolding l by blast
    next
      fix st
      assume "translate_text e (timeoutMs ty) m (trimmed_text m) =
          fetch_translation e (timeoutMs ty) m (trimmed_text m) st"
      with fetch_translation_answered [of e "timeoutMs ty" m "trimmed_text m" st] translate(3)
      have "answered e (timeoutMs ty) (translate_request (storage0 e) m (trimmed_text m))
          (if ty = js ''TRANSLATE_TEXT'' then invalid_response
           else if ty = js ''ANALYZE_TEXT'' then no_analysis JNull else no_audio JNull)
          (listener e (Some m))"
        unfolding l by simp
      with translate(3) show ?thesis by blast
    qed
  next
    case analyze
    with assms d have l: "listener e (Some m) = analyze_text e (timeoutMs ty) m (trimmed_text m)"
      by (simp add: listener_def Let_def)
    from analyze_text_answered [of e "timeoutMs ty" "trimmed_text m" m] analyze(3) d
    have "answered e (timeoutMs ty) (analyze_request (storage0 e) (trimmed_text m))
        (if ty = js ''TRANSLATE_TEXT'' then invalid_response
         else if ty = js ''ANALYZE_TEXT'' then no_analysis JNull else no_audio JNull)
        (listener e (Some m))"
      unfolding l by simp
    with analyze(3) show ?thesis by blast
  next
    case tts
    with assms d have l: "listener e (Some m) = get_tts e (timeoutMs ty) m (trimmed_text m)"
      by (simp add: listener_def Let_def)
    from get_tts_answered [of e "timeoutMs ty" m "trimmed_text m"] tts(3) d
    have "answered e (timeoutMs ty) (tts_request (storage0 e) m (trimmed_text m))
        (if ty = js ''TRANSLATE_TEXT'' then invalid_response
         else if ty = js ''ANALYZE_TEXT'' then no_analysis JNull else no_audio JNull)
        (listener e (Some m))"
      unfolding l by simp
    with tts(3) show ?thesis by blast
  next
    case unknown
    with assms show ?thesis by (simp add: listener_def Let_def)
  qed
qed


subsection \<open>Responses of the listener\<close>


lemma trimmed_text_hello: "trimmed_text hello_message = js ''hello''"
  by (simp add: trimmed_text_def hello_message_def trim_def js_def is_ws_def)


lemma hello_run:
  assumes "storage0 e = empty_storage"
  shows "listener e (Some hello_message) =
           fetch_translation e 15000 hello_message (js ''hello'') empty_storage"
    and "translate_request (storage0 e) hello_message (js ''hello'') = hello_request"
proof -
  have ty: "msg_type hello_message = Some (js ''TRANSLATE_TEXT'')"
    by (simp add: hello_message_def)
  have ne: "js ''TRANSLATE_TEXT'' \<noteq> []" "js ''hello'' \<noteq> []" "length (js ''hello'') \<le> 10000"
    "js ''TRANSLATE_TEXT'' \<noteq> js ''GET_TTS''"
    by (simp_all add: js_def)
  have "listener e (Some hello_message) = translate_text e 15000 hello_message (js ''hello'')"
    using ne by (simp add: listener_def Let_def trimmed_text_hello ty timeoutMs_def)
  moreover have "translate_text e tmo hello_message (js ''hello'')
      = fetch_translation e tmo hello_message (js ''hello'') empty_storage" for tmo
    by (simp add: translate_text_def Let_def getCachedTranslation_def assms empty_storage_def
        truthy_opt_def)
  ultimately show "listener e (Some hello_message) =
      fetch_translation e 15000 hello_message (js ''hello'') empty_storage"
    by simp
  have "target_of hello_message = js ''it''"
    by (simp add: target_of_def hello_message_def)
  then show "translate_request (storage0 e) hello_message (js ''hello'') = hello_request"
    by (simp add: translate_request_def assms hello_request_def getProxyConfig_def
        empty_storage_def request_headers_def)
qed

lemma hello_answered:
  assumes "storage0 e = empty_storage"
  shows "answered e 15000 hello_request invalid_response (listener e (Some hello_message))"
  using fetch_translation_answered [of e 15000 hello_message "js ''hello''" empty_storage]
  by (simp add: hello_run [OF assms])



subsection \<open>Validation comes before the network\<close>

text \<open>
  Claim C2, as the code has it. For a request with a non-empty \<^verbatim>\<open>type\<close> whose text is empty
  after trimming, the one response is \<^verbatim>\<open>empty_text\<close>; for one whose trimmed text is longer
  than 10000 code units it is \<^verbatim>\<open>text_too_long\<close>; in both cases \<^verbatim>\<open>fetch\<close> is not called. The
  test of the type comes before both: without a non-empty \<^verbatim>\<open>type\<close> there is no response at
  all, and no call either.
\<close>

theorem validation_before_network:
  "(msg_type m = Some ty \<and> ty \<noteq> [] \<and> trimmed_text m = [] \<longrightarrow>
      responses (listener e (Some m)) = [Failure empty_text] \<and>
      fetches (listener e (Some m)) = []) \<and>
   (msg_type m = Some ty \<and> ty \<noteq> [] \<and> length (trimmed_text m) > 10000 \<longrightarrow>
      responses (listener e (Some m)) = [Failure text_too_long] \<and>
      fetches (listener e (Some m)) = []) \<and>
   (msg_type m = None \<or> msg_type m = Some [] \<longrightarrow>
      responses (listener e (Some m)) = [] \<and> fetches (listener e (Some m)) = [])"
  by (auto simp: listener_def Let_def)

theorem validation_before_network_witness:
  "responses (listener quiet_env (Some blank_message)) = [Failure empty_text] \<and>
   fetches (listener quiet_env (Some blank_message)) = [] \<and>
   responses (listener quiet_env (Some long_message)) = [Failure text_too_long] \<and>
   fetches (listener quiet_env (Some long_message)) = [] \<and>
   responses (listener quiet_env (Some untyped_blank_message)) = [] \<and>
   fetches (listener quiet_env (Some untyped_blank_message)) = []"
proof -
  have blank: "msg_type blank_message = Some (js ''TRANSLATE_TEXT'') \<and> js ''TRANSLATE_TEXT'' \<noteq> [] \<and>
      trimmed_text blank_message = []"
    by (simp add: trimmed_text_def blank_message_def trim_def js_def is_ws_def)
  have long: "msg_type long_message = Some (js ''TRANSLATE_TEXT'') \<and> js ''TRANSLATE_TEXT'' \<noteq> [] \<and>
      length (trimmed_text long_message) > 10000"
    by (simp add: trimmed_text_def long_message_def trim_def js_def is_ws_def)
  have un: "msg_type untyped_blank_message = None \<or> msg_type untyped_blank_message = Some []"
    by (simp add: untyped_blank_message_def)
  from validation_before_network [of blank_message "js ''TRANSLATE_TEXT''" quiet_env] blank
  have a: "responses (listener quiet_env (Some blank_message)) = [Failure empty_text] \<and>
           fetches (listener quiet_env (Some blank_message)) = []"
    by blast
  from validation_before_network [of long_message "js ''TRANSLATE_TEXT''" quiet_env] long
  have b: "responses (listener quiet_env (Some long_message)) = [Failure text_too_long] \<and>
           fetches (listener quiet_env (Some long_message)) = []"
    by blast
  from validation_before_network [of untyped_blank_message _ quiet_env] un
  have c: "responses (listener quiet_env (Some untyped_blank_message)) = [] \<and>
           fetches (listener quiet_env (Some untyped_blank_message)) = []"
    by blast
  from a b c show ?thesis by simp
qed

text \<open>
  Claim C2 as stated fails for a message without a \<^verbatim>\<open>type\<close>: its text is empty after
  trimming, but the response is not \<^verbatim>\<open>empty_text\<close>, there is none.
\<close>

theorem untyped_blank_not_validated:
  "trimmed_text untyped_blank_message = [] \<and>
   responses (listener quiet_env (Some untyped_blank_message)) = []"
  by (simp add: trimmed_text_def untyped_blank_message_def trim_def js_def is_ws_def listener_def)

subsection \<open>Deadlines\<close>

text \<open>
  Claim C3, as the code has it. A call of the proxy is only made for the three known
  kinds, and the timer is armed with 25 seconds for \<^verbatim>\<open>GET_TTS\<close> and 15 seconds for the other
  two. The timer covers the call of \<^verbatim>\<open>fetch\<close> up to the arrival of the response: if the
  call has not settled when the timer fires, the one response is exactly
  \<^verbatim>\<open>{ error: 'timeout' }\<close>, and if \<^verbatim>\<open>fetch\<close> rejects before that with an error other than an
  abort, the one response is \<^verbatim>\<open>request_failed\<close> with the message of the error. The read of
  the body is outside the timer: when it never completes there is neither a \<^verbatim>\<open>timeout\<close>
  nor any other response, and when it fails the response is not \<^verbatim>\<open>request_failed\<close> but
  \<^verbatim>\<open>proxy_error\<close> with an empty message for a status outside 200 to 299, and
  \<^verbatim>\<open>invalid_response\<close>, \<^verbatim>\<open>no_analysis\<close> or \<^verbatim>\<open>no_audio\<close>, by the kind, otherwise.
\<close>

theorem network_deadline:
  assumes "msg_type m = Some ty" and "f \<in> set (fetches (listener e (Some m)))"
  shows "(ty = js ''TRANSLATE_TEXT'' \<or> ty = js ''ANALYZE_TEXT'' \<or> ty = js ''GET_TTS'') \<and>
         timeoutMs ty = (if ty = js ''GET_TTS'' then 25000 else 15000) \<and>
         (expired (timeoutMs ty) (network e f) \<longrightarrow>
            responses (listener e (Some m)) = [Failure timeout]) \<and>
         (\<forall>t er. network e f = Rejects t er \<and> t < timeoutMs ty \<and>
                  err_name er \<noteq> js ''AbortError'' \<longrightarrow>
            responses (listener e (Some m)) =
              [Failure (request_failed
                 (if err_message er \<noteq> [] then err_message er else err_name er))]) \<and>
         (\<forall>t r. network e f = Fulfils t r \<and> t < timeoutMs ty \<and> body r = Stalls \<longrightarrow>
            responses (listener e (Some m)) = []) \<and>
         (\<forall>t r. network e f = Fulfils t r \<and> t < timeoutMs ty \<and> body r = Fails \<longrightarrow>
            responses (listener e (Some m)) =
              [Failure (if \<not> ok r then proxy_error_status (status r) []
                        else if ty = js ''TRANSLATE_TEXT'' then invalid_response
                        else if ty = js ''ANALYZE_TEXT'' then no_analysis JNull
                        else no_audio JNull)])"
proof -
  let ?out = "listener e (Some m)"
  let ?fl = "if ty = js ''TRANSLATE_TEXT'' then invalid_response
             else if ty = js ''ANALYZE_TEXT'' then no_analysis JNull else no_audio JNull"
  from assms(2) have ne: "ty \<noteq> []"
    using assms(1) by (auto simp: listener_def)
  from listener_typed [OF assms(1) ne, of e] assms(2)
  obtain g where a: "answered e (timeoutMs ty) g ?fl ?out"
    and k: "ty = js ''TRANSLATE_TEXT'' \<or> ty = js ''ANALYZE_TEXT'' \<or> ty = js ''GET_TTS''"
    by auto
  with assms(2) have g: "g = f" by (simp add: answered_def)
  have tm: "timeoutMs ty = (if ty = js ''GET_TTS'' then 25000 else 15000)"
    by (simp add: timeoutMs_def)
  have oe: "err_name er \<noteq> js ''AbortError'' \<Longrightarrow> on_error er =
      Failure (request_failed (if err_message er \<noteq> [] then err_message er else err_name er))"
    for er by (simp add: on_error_def)
  have 1: "responses ?out = [Failure timeout]" if "expired (timeoutMs ty) (network e f)"
    using a that unfolding g
    by (simp add: answered_def await_fetch_expired on_error_AbortError)
  have 2: "responses ?out =
      [Failure (request_failed (if err_message er \<noteq> [] then err_message er else err_name er))]"
    if "network e f = Rejects t er" and "t < timeoutMs ty" and "err_name er \<noteq> js ''AbortError''"
    for t er
    using a that unfolding g
    by (simp add: answered_def await_fetch_Rejects oe)
  have 3: "responses ?out = []"
    if "network e f = Fulfils t r" and "t < timeoutMs ty" and "body r = Stalls" for t r
    using a that unfolding g
    by (simp add: answered_def await_fetch_def)
  have 4: "responses ?out = [Failure (if \<not> ok r then proxy_error_status (status r) [] else ?fl)]"
    if "network e f = Fulfils t r" and "t < timeoutMs ty" and "body r = Fails" for t r
    using a that unfolding g
    by (simp add: answered_def await_fetch_def)
  from k tm 1 2 3 4 show ?thesis by blast
qed

theorem network_deadline_witness:
  "responses (listener late_env (Some hello_message)) = [Failure timeout] \<and>
   responses (listener broken_env (Some hello_message)) =
     [Failure (request_failed (js ''Failed to fetch''))] \<and>
   responses (listener stalled_env (Some hello_message)) = [] \<and>
   responses (listener dropped_env (Some hello_message)) = [Failure invalid_response]"
proof -
  have ty: "msg_type hello_message = Some (js ''TRANSLATE_TEXT'')"
    by (simp add: hello_message_def)
  have f: "hello_request \<in> set (fetches (listener x (Some hello_message)))"
    if "storage0 x = empty_storage" for x
    using hello_answered [OF that] by (simp add: answered_def)
  have tm: "timeoutMs (js ''TRANSLATE_TEXT'') = 15000"
    by (simp add: timeoutMs_def js_def)
  have ex: "expired (timeoutMs (js ''TRANSLATE_TEXT'')) (network late_env hello_request)"
    by (simp add: expired_def tm late_env_def late_network_def)
  have rj: "network broken_env hello_request =
        Rejects 40 \<lparr>err_name = js ''TypeError'', err_message = js ''Failed to fetch''\<rparr> \<and>
      40 < timeoutMs (js ''TRANSLATE_TEXT'') \<and>
      err_name \<lparr>err_name = js ''TypeError'', err_message = js ''Failed to fetch''\<rparr>
        \<noteq> js ''AbortError''"
    by (simp add: tm broken_env_def broken_network_def) (simp add: js_def)
  have sl: "network stalled_env hello_request = Fulfils 40 \<lparr>status = 200, body = Stalls\<rparr> \<and>
      40 < timeoutMs (js ''TRANSLATE_TEXT'') \<and> body \<lparr>status = 200, body = Stalls\<rparr> = Stalls"
    by (simp add: tm stalled_env_def stalled_network_def)
  have dr: "network dropped_env hello_request = Fulfils 40 \<lparr>status = 200, body = Fails\<rparr> \<and>
      40 < timeoutMs (js ''TRANSLATE_TEXT'') \<and> body \<lparr>status = 200, body = Fails\<rparr> = Fails"
    by (simp add: tm dropped_env_def dropped_network_def)
  have okr: "ok \<lparr>status = 200, body = Fails\<rparr>"
    by (simp add: ok_def)
  from network_deadline [OF ty f, of late_env] ex
  have a: "responses (listener late_env (Some hello_message)) = [Failure timeout]"
    by (simp add: late_env_def)
  from network_deadline [OF ty f, of broken_env] rj
  have b: "responses (listener broken_env (Some hello_message)) =
     [Failure (request_failed (js ''Failed to fetch''))]"
    by (simp add: broken_env_def js_def)
  from network_deadline [OF ty f, of stalled_env] sl
  have c: "responses (listener stalled_env (Some hello_message)) = []"
    by (simp add: stalled_env_def)
  from network_deadline [OF ty f, of dropped_env] dr okr
  have d: "responses (listener dropped_env (Some hello_message)) = [Failure invalid_response]"
    by (simp add: dropped_env_def)
  from a b c d show ?thesis by simp
qed

text \<open>
  Claim C3 as stated fails after the response has arrived. With a response after 40
  milliseconds whose body never completes, the call is never aborted and \<^verbatim>\<open>timeout\<close> is
  never sent; with one whose body read fails, the response is \<^verbatim>\<open>invalid_response\<close>, not
  \<^verbatim>\<open>request_failed\<close>.
\<close>

theorem body_read_outside_deadline:
  "responses (listener stalled_env (Some hello_message)) = [] \<and>
   responses (listener dropped_env (Some hello_message)) = [Failure invalid_response]"
proof -
  have s: "answered stalled_env 15000 hello_request invalid_response
      (listener stalled_env (Some hello_message))"
    by (rule hello_answered) (simp add: stalled_env_def)
  have d: "answered dropped_env 15000 hello_request invalid_response
      (listener dropped_env (Some hello_message))"
    by (rule hello_answered) (simp add: dropped_env_def)
  from s have "responses (listener stalled_env (Some hello_message)) = []"
    by (simp add: answered_def stalled_env_def stalled_network_def await_fetch_def)
  moreover from d have "responses (listener dropped_env (Some hello_message)) =
      [Failure invalid_response]"
    by (simp add: answered_def dropped_env_def dropped_network_def await_fetch_def ok_def)
  ultimately show ?thesis by simp
qed

subsection \<open>Cache keys\<close>

text \<open>
  Claim C5, as the code has it. The key of a translate request is \<^verbatim>\<open>t:\<close>, the target, a
  bar and the trimmed text. For targets that do not contain the bar, two requests have the
  same key exactly when their targets and their texts are the same.
\<close>

theorem cacheKey_injective:
  assumes "ch CHR ''|'' \<notin> set t1" and "ch CHR ''|'' \<notin> set t2"
  shows "cacheKey t1 x1 = cacheKey t2 x2 \<longleftrightarrow> t1 = t2 \<and> x1 = x2"
proof
  assume "cacheKey t1 x1 = cacheKey t2 x2"
  then have eq: "t1 @ ch CHR ''|'' # x1 = t2 @ ch CHR ''|'' # x2"
    by (simp add: cacheKey_def js_def)
  from assms have "takeWhile (\<lambda>c. c \<noteq> ch CHR ''|'') (t1 @ ch CHR ''|'' # x1) = t1"
    and "takeWhile (\<lambda>c. c \<noteq> ch CHR ''|'') (t2 @ ch CHR ''|'' # x2) = t2"
    by (auto simp: takeWhile_tail)
  with eq have "t1 = t2" by simp
  with eq show "t1 = t2 \<and> x1 = x2" by simp
qed simp

theorem cacheKey_injective_witness:
  "cacheKey (js ''it'') (js ''a|b'') \<noteq> cacheKey (js ''fr'') (js ''a|b'')"
  using cacheKey_injective [of "js ''it''" "js ''fr''" "js ''a|b''" "js ''a|b''"]
  by (simp add: js_def)

text \<open>
  Claim C5 as stated fails when a target contains the bar: the target \<^verbatim>\<open>a|b\<close> with the text
  \<^verbatim>\<open>c\<close> and the target \<^verbatim>\<open>a\<close> with the text \<^verbatim>\<open>b|c\<close> have the same key.
\<close>

theorem cacheKey_collision:
  "cacheKey (js ''a|b'') (js ''c'') = cacheKey (js ''a'') (js ''b|c'') \<and>
   js ''a|b'' \<noteq> js ''a'' \<and> js ''c'' \<noteq> js ''b|c''"
  by (simp add: cacheKey_def js_def)

subsection \<open>An empty cached translation\<close>

lemma fetch_translation_storage_irrelevant:
  assumes "network e' = network e" and "getProxyConfig (storage0 e') = getProxyConfig (storage0 e)"
  shows "responses (fetch_translation e' tmo m s st') = responses (fetch_translation e tmo m s st) \<and>
         fetches (fetch_translation e' tmo m s st') = fetches (fetch_translation e tmo m s st)"
  using assms
  by (simp add: fetch_translation_def translate_request_def waiting_def Let_def
      split: option.splits sum.splits)

text \<open>
  Claim C10. When the cache entry for the key of a \<^verbatim>\<open>TRANSLATE_TEXT\<close> request holds the
  empty string, the listener calls the proxy once, never answers with a cached
  translation, and answers and calls exactly as it does when the entry is not there.
\<close>

theorem empty_cached_translation_is_miss:
  assumes "msg_type m = Some (js ''TRANSLATE_TEXT'')"
    and "trimmed_text m \<noteq> []" and "length (trimmed_text m) \<le> 10000"
    and "translationCacheV1 (storage0 e) (cacheKey (target_of m) (trimmed_text m)) = Some en"
    and "translation en = JStr []"
  shows "length (fetches (listener e (Some m))) = 1 \<and>
         (\<forall>v. Translation v True \<notin> set (responses (listener e (Some m)))) \<and>
         responses (listener e (Some m)) =
           responses (listener
             (e\<lparr>storage0 := (storage0 e)\<lparr>translationCacheV1 :=
                 (translationCacheV1 (storage0 e))
                   (cacheKey (target_of m) (trimmed_text m) := None)\<rparr>\<rparr>) (Some m)) \<and>
         fetches (listener e (Some m)) =
           fetches (listener
             (e\<lparr>storage0 := (storage0 e)\<lparr>translationCacheV1 :=
                 (translationCacheV1 (storage0 e))
                   (cacheKey (target_of m) (trimmed_text m) := None)\<rparr>\<rparr>) (Some m))"
proof -
  let ?k = "cacheKey (target_of m) (trimmed_text m)"
  let ?e' = "e\<lparr>storage0 := (storage0 e)\<lparr>translationCacheV1 :=
                 (translationCacheV1 (storage0 e))(?k := None)\<rparr>\<rparr>"
  let ?tmo = "timeoutMs (js ''TRANSLATE_TEXT'')"
  have ne: "js ''TRANSLATE_TEXT'' \<noteq> []" by (simp add: js_def)
  have l: "listener x (Some m) = translate_text x ?tmo m (trimmed_text m)" for x
    using assms(1,2,3) ne by (simp add: listener_def Let_def)
  obtain st where t: "translate_text e ?tmo m (trimmed_text m)
      = fetch_translation e ?tmo m (trimmed_text m) st"
    using assms(4,5)
    by (cases "CACHE_TTL_MS < now_read e - ts en")
       (simp_all add: translate_text_def Let_def getCachedTranslation_def truthy_opt_def)
  have t': "translate_text ?e' ?tmo m (trimmed_text m)
      = fetch_translation ?e' ?tmo m (trimmed_text m) (storage0 ?e')"
    by (simp add: translate_text_def Let_def getCachedTranslation_def truthy_opt_def)
  have same: "responses (fetch_translation ?e' ?tmo m (trimmed_text m) (storage0 ?e'))
        = responses (fetch_translation e ?tmo m (trimmed_text m) st) \<and>
      fetches (fetch_translation ?e' ?tmo m (trimmed_text m) (storage0 ?e'))
        = fetches (fetch_translation e ?tmo m (trimmed_text m) st)"
    by (rule fetch_translation_storage_irrelevant) (simp_all add: getProxyConfig_def)
  have nocache: "Translation v True \<notin> set (responses (fetch_translation e ?tmo m (trimmed_text m) st))"
    for v
    by (simp add: fetch_translation_def waiting_def Let_def on_error_def
        split: option.splits sum.splits)
  have one: "length (fetches (fetch_translation e ?tmo m (trimmed_text m) st)) = 1"
    using fetch_translation_answered [of e ?tmo m "trimmed_text m" st]
    by (simp add: answered_def)
  show ?thesis
    unfolding l t t' using same nocache one by simp
qed

theorem empty_cached_translation_is_miss_witness:
  "length (fetches (listener hollow_env (Some hello_message))) = 1 \<and>
   Translation (JStr []) True \<notin> set (responses (listener hollow_env (Some hello_message)))"
proof -
  have ty: "msg_type hello_message = Some (js ''TRANSLATE_TEXT'')"
    by (simp add: hello_message_def)
  have tx: "trimmed_text hello_message \<noteq> []" "length (trimmed_text hello_message) \<le> 10000"
    by (simp_all add: trimmed_text_hello js_def)
  have key: "cacheKey (target_of hello_message) (trimmed_text hello_message) = js ''t:it|hello''"
    unfolding trimmed_text_hello by (simp add: target_of_def hello_message_def cacheKey_def js_def)
  have en: "translationCacheV1 (storage0 hollow_env)
      (cacheKey (target_of hello_message) (trimmed_text hello_message))
      = Some \<lparr>translation = JStr [], ts = 0\<rparr>"
    unfolding key by (simp add: hollow_env_def hollow_storage_def)
  have em: "translation \<lparr>translation = JStr [], ts = 0\<rparr> = JStr []"
    by simp
  from empty_cached_translation_is_miss [OF ty tx en em] show ?thesis
    by blast
qed

section \<open>Properties of the proxy handler\<close>

subsection \<open>Routing\<close>

lemma upstream_error_reply: "upstream (error_reply st code extra calls) = calls"
  by (simp add: error_reply_def)

lemma upstream_proxy_failed: "upstream (proxy_failed er calls) = calls"
  by (simp add: proxy_failed_def error_reply_def)

lemma analyze_path_upstream_call:
  assumes "call = ChatCompletion model
      (if isSingleWord s then WordAnalysisPrompt (trim s) else SentenceAnalysisPrompt (trim s))"
  shows "upstream (analyze_path e model s) = [call]"
proof -
  have u: "upstream (if c then x else y) = (if c then upstream x else upstream y)"
    for c and x y :: handler_result
    by simp
  note defs = analyze_path_def Let_def assms [symmetric] upstream_error_reply
    upstream_proxy_failed
  show ?thesis
  proof (cases "provider e call")
    case (Throws er)
    then show ?thesis by (simp add: defs split del: if_split)
  next
    case (Replies resp)
    show ?thesis
    proof (cases "up_body resp")
      case (Inl er)
      with Replies show ?thesis by (simp add: defs split del: if_split)
    next
      case (Inr body_text)
      show ?thesis
      proof (cases "up_ok resp")
        case False
        with Replies Inr show ?thesis by (simp add: defs split del: if_split)
      next
        case True
        show ?thesis
        proof (cases "JSON_parse body_text")
          case None
          with Replies Inr True show ?thesis by (simp add: defs split del: if_split)
        next
          case (Some data)
          with Replies Inr True show ?thesis
            by (simp add: defs u split: option.splits json.splits parse_outcome.splits
                split del: if_split cong: if_cong)
        qed
      qed
    qed
  qed
qed

lemma analyze_path_upstream:
  "\<exists>p. upstream (analyze_path e model s) = [ChatCompletion model p] \<and>
       (p = WordAnalysisPrompt (trim s) \<or> p = SentenceAnalysisPrompt (trim s))"
  using analyze_path_upstream_call [OF refl, of e model s] by auto

lemma tts_path_upstream:
  "\<forall>c \<in> set (upstream (tts_path e s voice)). \<exists>v. c = TextToSpeech v s"
  by (simp add: tts_path_def Let_def upstream_error_reply
      split: upstream_reply.splits sum.splits option.splits prod.splits)

lemma translate_path_upstream:
  "\<exists>t. upstream (translate_path e model s target) = [ChatCompletion model (TranslationPrompt t s)]"
proof -
  define call where "call = ChatCompletion model
      (TranslationPrompt (case (if truthy_opt target then target else None) of
                            Some t \<Rightarrow> t | None \<Rightarrow> JStr (js ''it'')) s)"
  note defs = translate_path_def Let_def call_def [symmetric] upstream_error_reply
    upstream_proxy_failed
  have "upstream (translate_path e model s target) = [call]"
  proof (cases "provider e call")
    case (Throws er)
    then show ?thesis by (simp add: defs split del: if_split)
  next
    case (Replies resp)
    show ?thesis
    proof (cases "up_body resp")
      case (Inl er)
      with Replies show ?thesis by (simp add: defs split del: if_split)
    next
      case (Inr body_text)
      show ?thesis
      proof (cases "up_ok resp")
        case False
        with Replies Inr show ?thesis by (simp add: defs split del: if_split)
      next
        case True
        show ?thesis
        proof (cases "JSON_parse body_text")
          case None
          with Replies Inr True show ?thesis by (simp add: defs split del: if_split)
        next
          case (Some data)
          with Replies Inr True show ?thesis
            by (simp add: defs split: option.splits json.splits)
        qed
      qed
    qed
  qed
  then show ?thesis by (auto simp: call_def)
qed

lemma handler_valid_post:
  assumes "req_method req = js ''POST''" and "req_body req = Some b"
    and "field b (js ''text'') = Some (JStr s)" and "s \<noteq> []" and "length s \<le> 10000"
    and "nonempty (OPENAI_API_KEY e) = Some k"
  shows "handler e req =
           (case select_action b of
              Analyze \<Rightarrow>
                analyze_path e (case nonempty (OPENAI_MODEL e) of
                                  Some mo \<Rightarrow> mo | None \<Rightarrow> js ''gpt-3.5-turbo'') s
            | Synthesize \<Rightarrow> tts_path e s (field b (js ''voice''))
            | Translate \<Rightarrow>
                translate_path e (case nonempty (OPENAI_MODEL e) of
                                    Some mo \<Rightarrow> mo | None \<Rightarrow> js ''gpt-3.5-turbo'') s
                  (field b (js ''target'')))"
proof -
  from assms(3) obtain ms where b: "b = JObj ms" by (cases b) simp_all
  have post: "js ''POST'' \<noteq> js ''OPTIONS''" by (simp add: js_def)
  show ?thesis
    using assms post unfolding b
    by (simp add: handler_def handle_post_def Let_def truthy_opt_def)
qed

text \<open>
  Claim C7, as the code has it. For a valid POST payload on a configured server the path
  is chosen in this order: \<^verbatim>\<open>action === 'analyze'\<close> gives the analyze path; otherwise a
  truthy \<^verbatim>\<open>tts\<close> (of any type) gives the speech path; otherwise the translation path. The
  paths are told apart by the provider calls they make.
\<close>

theorem handler_routing:
  assumes "req_method req = js ''POST''" and "req_body req = Some b"
    and "field b (js ''text'') = Some (JStr s)" and "s \<noteq> []" and "length s \<le> 10000"
    and "nonempty (OPENAI_API_KEY e) = Some k"
    and "model = (case nonempty (OPENAI_MODEL e) of Some mo \<Rightarrow> mo | None \<Rightarrow> js ''gpt-3.5-turbo'')"
  shows "(field b (js ''action'') = Some (JStr (js ''analyze'')) \<longrightarrow>
            handler e req = analyze_path e model s \<and>
            (\<exists>p. upstream (handler e req) = [ChatCompletion model p] \<and>
                 (p = WordAnalysisPrompt (trim s) \<or> p = SentenceAnalysisPrompt (trim s)))) \<and>
         (field b (js ''action'') \<noteq> Some (JStr (js ''analyze'')) \<and>
          truthy_opt (field b (js ''tts'')) \<longrightarrow>
            handler e req = tts_path e s (field b (js ''voice'')) \<and>
            (\<forall>c \<in> set (upstream (handler e req)). \<exists>v. c = TextToSpeech v s)) \<and>
         (field b (js ''action'') \<noteq> Some (JStr (js ''analyze'')) \<and>
          \<not> truthy_opt (field b (js ''tts'')) \<longrightarrow>
            handler e req = translate_path e model s (field b (js ''target'')) \<and>
            (\<exists>t. upstream (handler e req) = [ChatCompletion model (TranslationPrompt t s)]))"
  using handler_valid_post [OF assms(1-6)] assms(7)
    analyze_path_upstream [of e model s] tts_path_upstream [of e s "field b (js ''voice'')"]
    translate_path_upstream [of e model s "field b (js ''target'')"]
  by (simp add: select_action_def)

lemma configured_key: "nonempty (OPENAI_API_KEY configured_env) = Some (js ''sk-test'')"
  by (simp add: configured_env_def nonempty_def js_def)

lemma configured_model:
  "js ''gpt-3.5-turbo'' =
     (case nonempty (OPENAI_MODEL configured_env) of Some mo \<Rightarrow> mo | None \<Rightarrow> js ''gpt-3.5-turbo'')"
  by (simp add: configured_env_def nonempty_def)

theorem handler_routing_witness:
  "handler configured_env (post analyze_word_body) =
     analyze_path configured_env (js ''gpt-3.5-turbo'') (js ''serendipity'') \<and>
   handler configured_env (post tts_number_body) =
     tts_path configured_env (js ''hello'') None"
proof -
  have m: "req_method (post b) = js ''POST''" and bd: "req_body (post b) = Some b" for b
    by (simp_all add: post_def)
  have t1: "field analyze_word_body (js ''text'') = Some (JStr (js ''serendipity''))"
    and a1: "field analyze_word_body (js ''action'') = Some (JStr (js ''analyze''))"
    by (simp_all add: analyze_word_body_def js_def)
  have t2: "field tts_number_body (js ''text'') = Some (JStr (js ''hello''))"
    and a2: "field tts_number_body (js ''action'') \<noteq> Some (JStr (js ''analyze''))"
    and s2: "truthy_opt (field tts_number_body (js ''tts''))"
    and v2: "field tts_number_body (js ''voice'') = None"
    by (simp_all add: tts_number_body_def js_def truthy_opt_def rounds_to_zero_def)
  have n: "js ''serendipity'' \<noteq> []" "length (js ''serendipity'') \<le> 10000"
    "js ''hello'' \<noteq> []" "length (js ''hello'') \<le> 10000"
    by (simp_all add: js_def)
  from handler_routing [OF m bd t1 n(1,2) configured_key configured_model] a1
  have a: "handler configured_env (post analyze_word_body) =
     analyze_path configured_env (js ''gpt-3.5-turbo'') (js ''serendipity'')"
    by blast
  from handler_routing [OF m bd t2 n(3,4) configured_key configured_model] a2 s2 v2
  have b: "handler configured_env (post tts_number_body) =
     tts_path configured_env (js ''hello'') None"
    by simp
  from a b show ?thesis by simp
qed

text \<open>
  Claim C7 as stated fails for a payload whose \<^verbatim>\<open>tts\<close> is truthy but not \<^verbatim>\<open>true\<close>: with
  \<^verbatim>\<open>tts: 1\<close> the handler calls the speech provider, not the translation.
\<close>

theorem truthy_tts_is_synthesized:
  "select_action tts_number_body = Synthesize \<and>
   upstream (handler configured_env (post tts_number_body)) =
     [TextToSpeech (JStr (js ''voice-1'')) (js ''hello'')]"
  by (simp add: handler_def handle_post_def select_action_def tts_path_def post_def
      tts_number_body_def configured_env_def unreachable_def error_reply_def nonempty_def
      truthy_opt_def rounds_to_zero_def js_def Let_def)

subsection \<open>Single word or sentence\<close>

lemma tokens_from_dropWhile: "tokens_from [] (dropWhile is_ws s) = tokens_from [] s"
  by (induction s) auto

lemma filter_split_from: "filter (\<lambda>p. p \<noteq> []) (split_from cur s) = tokens_from cur s"
  by (induction cur s rule: split_from.induct) (auto simp: tokens_from_dropWhile)

lemma last_dropWhile_ws:
  assumes "s \<noteq> []" and "\<not> is_ws (last s)"
  shows "dropWhile is_ws s \<noteq> [] \<and> \<not> is_ws (hd (dropWhile is_ws s)) \<and>
         last (dropWhile is_ws s) = last s"
proof -
  from assms have in_s: "last s \<in> set s" by simp
  with assms(2) have ne: "dropWhile is_ws s \<noteq> []" by auto
  from in_s assms(2) have "last (dropWhile is_ws s) = last s" by (rule dropWhile_last)
  with ne hd_dropWhile [OF ne] show ?thesis by simp
qed

lemma split_from_no_empty_piece:
  assumes "cur \<noteq> [] \<or> (s \<noteq> [] \<and> \<not> is_ws (hd s))" and "s = [] \<or> \<not> is_ws (last s)"
  shows "[] \<notin> set (split_from cur s)"
  using assms
proof (induction cur s rule: split_from.induct)
  case (1 cur)
  then show ?case by simp
next
  case (2 cur c cs)
  show ?case
  proof (cases "is_ws c")
    case True
    with "2.prems" have cur: "cur \<noteq> []" and cs: "cs \<noteq> []" and l: "\<not> is_ws (last cs)"
      by (auto split: if_splits)
    from last_dropWhile_ws [OF cs l] "2.IH"(1) [OF True] l
    have "[] \<notin> set (split_from [] (dropWhile is_ws cs))" by simp
    with True cur show ?thesis by simp
  next
    case False
    with "2.prems" have "cs = [] \<or> \<not> is_ws (last cs)" by (auto split: if_splits)
    with "2.IH"(2) [OF False] have "[] \<notin> set (split_from (cur @ [c]) cs)" by simp
    with False show ?thesis by simp
  qed
qed

lemma trim_ends:
  assumes "trim s \<noteq> []"
  shows "\<not> is_ws (hd (trim s)) \<and> \<not> is_ws (last (trim s))"
proof -
  define d where "d = dropWhile is_ws s"
  define r where "r = dropWhile is_ws (rev d)"
  have t: "trim s = rev r" by (simp add: trim_def d_def r_def)
  with assms have r: "r \<noteq> []" by simp
  then have d: "d \<noteq> []" by (auto simp: r_def)
  have 1: "\<not> is_ws (hd r)" using r unfolding r_def by (rule hd_dropWhile)
  have 2: "\<not> is_ws (hd d)" using d unfolding d_def by (rule hd_dropWhile)
  have "rev d \<noteq> []" and "\<not> is_ws (last (rev d))" using d 2 by (simp_all add: last_rev)
  from last_dropWhile_ws [OF this] have "last r = hd d" by (simp add: r_def last_rev)
  with 1 2 show ?thesis by (simp add: t hd_rev last_rev)
qed

text \<open>
  On every text that is not empty after trimming, the classification of the code agrees
  with the specification: a single word is a text with exactly one white-space delimited
  token and none of the four punctuation marks.
\<close>

lemma isSingleWord_iff_one_token:
  assumes "trim s \<noteq> []"
  shows "isSingleWord s \<longleftrightarrow>
           length (whitespace_tokens (trim s)) = 1 \<and> \<not> has_terminal_punctuation (trim s)"
proof -
  from trim_ends [OF assms] assms
  have "[] \<notin> set (split_from [] (trim s))"
    by (intro split_from_no_empty_piece) auto
  then have "filter (\<lambda>p. p \<noteq> []) (split_from [] (trim s)) = split_from [] (trim s)"
    by (auto simp: filter_id_conv)
  with filter_split_from [of "[]" "trim s"]
  have "split_ws (trim s) = whitespace_tokens (trim s)"
    by (simp add: split_ws_def whitespace_tokens_def)
  then show ?thesis by (simp add: isSingleWord_def wordCount_def)
qed

lemma classification_examples:
  "isSingleWord (js ''serendipity'') \<and> \<not> isSingleWord (js ''The cat sat.'')"
  by code_simp

text \<open>
  Claim C8 fails on a text of white space only, which passes the handler's validation: the
  trimmed text is empty and has no token at all, but \<^verbatim>\<open>"".split(/\s+/)\<close> is the one-element
  array \<^verbatim>\<open>[""]\<close>, so \<^verbatim>\<open>wordCount\<close> is 1 and the handler asks the model to analyze the word
  \<^verbatim>\<open>""\<close>.
\<close>

theorem blank_text_counts_as_word:
  "whitespace_tokens (trim (js ''   '')) = [] \<and>
   wordCount (js ''   '') = 1 \<and>
   isSingleWord (js ''   '') \<and>
   upstream (handler configured_env (post analyze_blank_body)) =
     [ChatCompletion (js ''gpt-3.5-turbo'') (WordAnalysisPrompt [])]"
proof -
  have t: "trim (js ''   '') = []"
    by (simp add: trim_def js_def is_ws_def)
  have w: "wordCount (js ''   '') = 1" and s: "isSingleWord (js ''   '')"
    by (simp_all add: isSingleWord_def wordCount_def t split_ws_def has_terminal_punctuation_def)
  have k: "whitespace_tokens (trim (js ''   '')) = []"
    by (simp add: t whitespace_tokens_def)
  have m: "req_method (post analyze_blank_body) = js ''POST''"
    and b: "req_body (post analyze_blank_body) = Some analyze_blank_body"
    by (simp_all add: post_def)
  have f: "field analyze_blank_body (js ''text'') = Some (JStr (js ''   ''))"
    and a: "select_action analyze_blank_body = Analyze"
    by (simp_all add: analyze_blank_body_def select_action_def js_def)
  have n: "js ''   '' \<noteq> []" "length (js ''   '') \<le> 10000"
    by (simp_all add: js_def)
  have "handler configured_env (post analyze_blank_body) =
      analyze_path configured_env (js ''gpt-3.5-turbo'') (js ''   '')"
    using handler_valid_post [OF m b f n configured_key] a configured_model by simp
  moreover have "upstream (analyze_path configured_env (js ''gpt-3.5-turbo'') (js ''   '')) =
      [ChatCompletion (js ''gpt-3.5-turbo'') (WordAnalysisPrompt [])]"
    by (simp add: analyze_path_def Let_def s t configured_env_def unreachable_def
        upstream_proxy_failed)
  ultimately show ?thesis using k w s by simp
qed

subsection \<open>Recovering JSON from the model's answer\<close>





lemma dropWhile_last: "t \<noteq> [] \<Longrightarrow> \<not> P (last t) \<Longrightarrow> dropWhile P (rev t) = rev t"
  by (cases t rule: rev_cases) simp_all













end
